theory Spec2Isabelle
  imports Complex_Main
begin

section \<open>Data model (models/Video.js, req.user)\<close>

datatype status = PENDING | PROCESSING | COMPLETED | FLAGGED

datatype role = ADMIN | EDITOR | VIEWER

type_synonym vid = nat
type_synonym tid = nat
type_synonym uid = nat

text \<open>A file is a sequence of bytes; Isabelle's \<^typ>\<open>char\<close> is a byte.\<close>

type_synonym bytes = "char list"

record tech_metadata =
  width :: "nat option"
  height :: "nat option"
  bitrate :: "nat option"
  codec :: "string option"
  frameRate :: "real option"

text \<open>The fields of \<open>videoSchema\<close> that the pipeline and the controllers read or write.\<close>

record video =
  title :: string
  originalFilename :: string
  filePath :: string
  fileSize :: nat
  mimeType :: string
  duration :: "int option"
  processingStatus :: status
  processingError :: "string option"
  metadata :: "tech_metadata option"
  tenantId :: tid
  uploadedBy :: uid
  isPublic :: bool
  views :: nat

text \<open>The identity attached to a request: \<open>req.user\<close>, or the one resolved from a query token.\<close>

record principal =
  p_id :: uid
  p_role :: role
  p_tenantId :: tid

text \<open>The \<open>Video\<close> collection, keyed by \<open>_id\<close>, and the files on disk, keyed by path.\<close>

type_synonym db = "vid \<rightharpoonup> video"
type_synonym files = "string \<rightharpoonup> bytes"

section \<open>JavaScript string and number primitives used by the code\<close>

text \<open>
  A string is the sequence of its code units, each below 256 (the ASCII and Latin-1
  characters). On these \<open>String.prototype.toLowerCase\<close> works unit by unit: the capital
  letters, of codes 65 to 90, 192 to 214 and 216 to 222, move up by 32 and every other
  unit is kept.
\<close>

definition lower_char :: "char \<Rightarrow> char" where
  "lower_char c =
     (let n = (of_char c :: nat)
      in if 65 \<le> n \<and> n \<le> 90 \<or> 192 \<le> n \<and> n \<le> 214 \<or> 216 \<le> n \<and> n \<le> 222
         then char_of (n + 32) else c)"

definition toLowerCase :: "string \<Rightarrow> string" where
  "toLowerCase s = map lower_char s"

text \<open>\<open>s.includes(pat)\<close>: \<open>pat\<close> occurs in \<open>s\<close> as a contiguous substring.\<close>

fun js_includes :: "string \<Rightarrow> string \<Rightarrow> bool" where
  "js_includes [] pat = (pat = [])"
| "js_includes (c # cs) pat = (take (length pat) (c # cs) = pat \<or> js_includes cs pat)"

text \<open>\<open>s.replace(/pat/, '')\<close> for a literal pattern: the first occurrence is removed.\<close>

fun remove_first :: "string \<Rightarrow> string \<Rightarrow> string" where
  "remove_first pat [] = []"
| "remove_first pat (c # cs) =
     (if take (length pat) (c # cs) = pat then drop (length pat) (c # cs)
      else c # remove_first pat cs)"

text \<open>\<open>s.split(d)\<close> for a one-character separator; \<open>''.split(d)\<close> is \<open>['']\<close>.\<close>

fun js_split :: "char \<Rightarrow> string \<Rightarrow> string list" where
  "js_split d [] = [[]]"
| "js_split d (c # cs) =
     (if c = d then [] # js_split d cs
      else (case js_split d cs of [] \<Rightarrow> [[c]] | p # ps \<Rightarrow> (c # p) # ps))"

text \<open>\<open>parts[i]\<close>: \<open>undefined\<close> (here \<open>None\<close>) beyond the end of the array.\<close>

definition js_index :: "'a list \<Rightarrow> nat \<Rightarrow> 'a option" where
  "js_index xs i = (if i < length xs then Some (xs ! i) else None)"

definition is_digit :: "char \<Rightarrow> bool" where
  "is_digit c = (48 \<le> (of_char c :: nat) \<and> (of_char c :: nat) \<le> 57)"

definition digit_val :: "char \<Rightarrow> nat" where
  "digit_val c = (of_char c :: nat) - 48"

text \<open>The white space \<open>parseInt\<close> skips, among the code units below 256.\<close>

definition is_js_space :: "char \<Rightarrow> bool" where
  "is_js_space c = ((of_char c :: nat) \<in> {9, 10, 11, 12, 13, 32, 160})"

definition digits_value :: "string \<Rightarrow> nat" where
  "digits_value ds = foldl (\<lambda>acc c. 10 * acc + digit_val c) 0 ds"

text \<open>
  \<open>parseInt(s, 10)\<close>: leading white space is skipped, one sign is accepted, the longest
  run of decimal digits is read; with no digit the result is \<open>NaN\<close> (here \<open>None\<close>).
  The value is kept exact: rounding to a double is monotone and the file sizes it is
  compared with are exact, so no comparison of the code changes.
\<close>

definition parseInt :: "string \<Rightarrow> int option" where
  "parseInt s =
     (let t = dropWhile is_js_space s;
          (neg, u) = (case t of
                        [] \<Rightarrow> (False, [])
                      | c # cs \<Rightarrow> if c = CHR ''-'' then (True, cs)
                                 else if c = CHR ''+'' then (False, cs)
                                 else (False, t));
          ds = takeWhile is_digit u
      in if ds = [] then None
         else Some (if neg then - int (digits_value ds) else int (digits_value ds)))"

text \<open>Number to string, as a template literal renders an integer.\<close>

definition digit_char :: "nat \<Rightarrow> char" where
  "digit_char k = char_of (48 + k)"

function dec :: "nat \<Rightarrow> string" where
  "dec n = (if n < 10 then [digit_char n] else dec (n div 10) @ [digit_char (n mod 10)])"
  by pat_completeness auto
termination
  by (relation "measure (\<lambda>n. n)") auto

definition show_num :: "int option \<Rightarrow> string" where
  "show_num x =
     (case x of
        None \<Rightarrow> ''NaN''
      | Some i \<Rightarrow> if i < 0 then CHR ''-'' # dec (nat (- i)) else dec (nat i))"

section \<open>HTTP responses\<close>

text \<open>What a handler throws into its \<open>catch\<close>: a store (mongoose) error with its message, or
  the range error of \<open>fs.createReadStream\<close>.\<close>

datatype exn = StoreError string | RangeError

text \<open>The JSON bodies the controllers send (\<open>success\<close> is determined by the constructor).\<close>

datatype body =
    Msg string
  | MsgFlagged string status "string option"
  | MsgStatus string status
  | MsgError string "exn option"
  | Data video
  | DataMsg string video

datatype response =
    Json nat body
  | Stream nat "(string \<times> string) list" bytes

fun status_code :: "response \<Rightarrow> nat" where
  "status_code (Json c b) = c"
| "status_code (Stream c h bs) = c"

text \<open>The bytes of the asset that a response carries.\<close>

fun content_bytes :: "response \<Rightarrow> bytes" where
  "content_bytes (Json c b) = []"
| "content_bytes (Stream c h bs) = bs"

section \<open>Streaming controller (controllers/streaming.controller.js)\<close>

text \<open>A document of the \<open>User\<close> collection with its tenant populated (id and \<open>isActive\<close>).\<close>

record user =
  u_role :: role
  u_isActive :: bool
  u_tenant :: "(tid \<times> bool) option"

text \<open>
  What a handler cannot see in its arguments: whether the \<open>Video\<close> query or \<open>save\<close> throws
  (with which message), and whether \<open>NODE_ENV\<close> is \<open>development\<close>.
\<close>

record henv =
  find_throws :: "string option"
  save_throws :: "string option"
  dev :: bool

text \<open>\<open>jwt_verify\<close> is \<open>None\<close> when \<open>jwt.verify\<close> (or the user query after it) throws.\<close>

record senv = henv +
  jwt_verify :: "string \<Rightarrow> uid option"
  users :: "uid \<rightharpoonup> user"

record stream_req =
  r_id :: vid
  r_user :: "principal option"
  r_token :: "string option"
  r_range :: "string option"

definition resolve_identity :: "'a senv_scheme \<Rightarrow> stream_req \<Rightarrow> response + principal" where
  "resolve_identity env req =
     (case r_user req of
        Some u \<Rightarrow> Inr u
      | None \<Rightarrow>
          (case r_token req of
             None \<Rightarrow> Inl (Json 401 (Msg ''Authentication required''))
           | Some tok \<Rightarrow>
               if tok = [] then Inl (Json 401 (Msg ''Authentication required''))
               else
                 (case jwt_verify env tok of
                    None \<Rightarrow> Inl (Json 401 (Msg ''Invalid token''))
                  | Some i \<Rightarrow>
                      (case users env i of
                         None \<Rightarrow> Inl (Json 401 (Msg ''Unauthorized''))
                       | Some u \<Rightarrow>
                           (case u_tenant u of
                              None \<Rightarrow> Inl (Json 401 (Msg ''Unauthorized''))
                            | Some (t, active) \<Rightarrow>
                                if \<not> u_isActive u \<or> \<not> active
                                then Inl (Json 401 (Msg ''Unauthorized''))
                                else Inr \<lparr>p_id = i, p_role = u_role u, p_tenantId = t\<rparr>)))))"

text \<open>
  \<open>Video.findOne({_id, tenantId, $or: [{isPublic: true}, {uploadedBy}]})\<close>, the \<open>$or\<close>
  present for a VIEWER only.
\<close>

definition findOne :: "db \<Rightarrow> vid \<Rightarrow> principal \<Rightarrow> video option" where
  "findOne d i u =
     (case d i of
        None \<Rightarrow> None
      | Some v \<Rightarrow>
          if tenantId v = p_tenantId u
             \<and> (if p_role u = VIEWER then isPublic v \<or> uploadedBy v = p_id u else True)
          then Some v else None)"

text \<open>\<open>x >= n\<close> on a number that may be \<open>NaN\<close>: false for \<open>NaN\<close>.\<close>

definition js_ge :: "int option \<Rightarrow> int \<Rightarrow> bool" where
  "js_ge x n = (case x of None \<Rightarrow> False | Some k \<Rightarrow> n \<le> k)"

text \<open>
  \<open>fs.createReadStream(path, {start, end})\<close> on a file with the given content: Node
  validates in the constructor that both are non-negative integers with
  \<open>start <= end\<close> and throws otherwise; the stream yields the inclusive span.
\<close>

definition createReadStream :: "bytes \<Rightarrow> int option \<Rightarrow> int option \<Rightarrow> exn + bytes" where
  "createReadStream content start end' =
     (case (start, end') of
        (Some s, Some e) \<Rightarrow>
          if s < 0 \<or> e < 0 \<or> e < s then Inl RangeError
          else Inr (take (nat (e - s + 1)) (drop (nat s) content))
      | _ \<Rightarrow> Inl RangeError)"

text \<open>\<open>video.mimeType || 'video/mp4'\<close>\<close>

definition content_type :: "video \<Rightarrow> string" where
  "content_type v = (if mimeType v = [] then ''video/mp4'' else mimeType v)"

text \<open>The start and end the controller reads from a non-empty \<open>Range\<close> header.\<close>

definition range_parts :: "string \<Rightarrow> string list" where
  "range_parts r = js_split (CHR ''-'') (remove_first ''bytes='' r)"

definition range_start :: "string \<Rightarrow> int option" where
  "range_start r = (case js_index (range_parts r) 0 of None \<Rightarrow> None | Some p \<Rightarrow> parseInt p)"

definition range_end :: "string \<Rightarrow> int \<Rightarrow> int option" where
  "range_end r fsize =
     (case js_index (range_parts r) 1 of
        None \<Rightarrow> Some (fsize - 1)
      | Some p \<Rightarrow> if p = [] then Some (fsize - 1) else parseInt p)"

text \<open>\<open>(end - start) + 1\<close>, \<open>NaN\<close> when either is.\<close>

definition chunksize :: "int option \<Rightarrow> int option \<Rightarrow> int option" where
  "chunksize start end' =
     (case (start, end') of (Some s, Some e) \<Rightarrow> Some (e - s + 1) | _ \<Rightarrow> None)"

text \<open>The part of \<open>streamVideo\<close> after the file was found on disk.\<close>

definition send_file :: "bool \<Rightarrow> video \<Rightarrow> bytes \<Rightarrow> string option \<Rightarrow> response" where
  "send_file development v content rng =
     (let fsize = int (length content);
          whole = Stream 200
                    [(''Content-Length'', show_num (Some fsize)),
                     (''Content-Type'', content_type v),
                     (''Accept-Ranges'', ''bytes'')] content
      in case rng of
           None \<Rightarrow> whole
         | Some r \<Rightarrow>
             if r = [] then whole
             else
               (let start = range_start r; end' = range_end r fsize
                in if js_ge start fsize \<or> js_ge end' fsize
                   then Json 416 (Msg ''Range Not Satisfiable'')
                   else
                     (case createReadStream content start end' of
                        Inl e \<Rightarrow>
                          Json 500 (MsgError ''Error streaming video''
                                      (if development then Some e else None))
                      | Inr file \<Rightarrow>
                          Stream 206
                            [(''Content-Range'',
                                ''bytes '' @ show_num start @ ''-'' @ show_num end'
                                  @ ''/'' @ show_num (Some fsize)),
                             (''Accept-Ranges'', ''bytes''),
                             (''Content-Length'',
                                show_num (chunksize start end')),
                             (''Content-Type'', content_type v),
                             (''Cache-Control'', ''no-cache'')] file)))"

text \<open>The controller; it returns the collection too, which it never writes.\<close>

definition streamVideo :: "'a senv_scheme \<Rightarrow> db \<Rightarrow> files \<Rightarrow> stream_req \<Rightarrow> response \<times> db" where
  "streamVideo env d fs req =
     (case resolve_identity env req of
        Inl r \<Rightarrow> (r, d)
      | Inr u \<Rightarrow>
          (case find_throws env of
             Some m \<Rightarrow>
               (Json 500 (MsgError ''Error streaming video''
                            (if dev env then Some (StoreError m) else None)), d)
           | None \<Rightarrow>
               (case findOne d (r_id req) u of
                  None \<Rightarrow> (Json 404 (Msg ''Video not found or access denied''), d)
                | Some v \<Rightarrow>
                    if processingStatus v = FLAGGED
                    then (Json 403 (MsgFlagged
                            ''This video has been flagged and cannot be streamed''
                            (processingStatus v) (processingError v)), d)
                    else if processingStatus v \<noteq> COMPLETED
                    then (Json 403 (MsgStatus ''Video is still processing''
                            (processingStatus v)), d)
                    else
                      (case fs (filePath v) of
                         None \<Rightarrow> (Json 404 (Msg ''Video file not found''), d)
                       | Some content \<Rightarrow>
                           (send_file (dev env) v content (r_range req), d)))))"

section \<open>Record controllers (controllers/upload.controller.js) and route guards\<close>

text \<open>\<open>GET /api/videos/:id\<close>, behind \<open>authenticate\<close>: \<open>u\<close> is \<open>req.user\<close>.\<close>

definition getVideoById :: "'a henv_scheme \<Rightarrow> db \<Rightarrow> principal \<Rightarrow> vid \<Rightarrow> response \<times> db" where
  "getVideoById env d u i =
     (let failed = (\<lambda>m. (Json 500 (MsgError ''Error fetching video''
                                     (if dev env then Some (StoreError m) else None)), d))
      in case find_throws env of
           Some m \<Rightarrow> failed m
         | None \<Rightarrow>
             (case findOne d i u of
                None \<Rightarrow> (Json 404 (Msg ''Video not found or access denied''), d)
              | Some v \<Rightarrow>
                  (let v' = v\<lparr>views := views v + 1\<rparr>
                   in case save_throws env of
                        Some m \<Rightarrow> failed m
                      | None \<Rightarrow> (Json 200 (Data v'), d(i \<mapsto> v')))))"

definition parse_status :: "string \<Rightarrow> status option" where
  "parse_status s =
     (if s = ''PENDING'' then Some PENDING
      else if s = ''PROCESSING'' then Some PROCESSING
      else if s = ''COMPLETED'' then Some COMPLETED
      else if s = ''FLAGGED'' then Some FLAGGED
      else None)"

text \<open>
  \<open>PATCH /api/videos/:id/status\<close>: the body's \<open>processingStatus\<close> and
  \<open>processingError\<close> (\<open>None\<close> when absent).
\<close>

definition updateProcessingStatus ::
  "'a henv_scheme \<Rightarrow> db \<Rightarrow> principal \<Rightarrow> vid \<Rightarrow> string \<Rightarrow> string option \<Rightarrow> response \<times> db" where
  "updateProcessingStatus env d u i st err =
     (let failed = (\<lambda>m. (Json 500 (MsgError ''Error updating processing status''
                                     (if dev env then Some (StoreError m) else None)), d))
      in case parse_status st of
           None \<Rightarrow> (Json 400 (Msg ''Invalid processing status''), d)
         | Some st' \<Rightarrow>
             (case find_throws env of
                Some m \<Rightarrow> failed m
              | None \<Rightarrow>
                  (case d i of
                     None \<Rightarrow> (Json 404 (Msg ''Video not found''), d)
                   | Some v \<Rightarrow>
                       if tenantId v \<noteq> p_tenantId u
                       then (Json 404 (Msg ''Video not found''), d)
                       else
                         (let v1 = v\<lparr>processingStatus := st'\<rparr>;
                              v2 = (case err of
                                      None \<Rightarrow> v1
                                    | Some e \<Rightarrow> if e = [] then v1
                                               else v1\<lparr>processingError := Some e\<rparr>)
                          in case save_throws env of
                               Some m \<Rightarrow> failed m
                             | None \<Rightarrow>
                                 (Json 200 (DataMsg ''Processing status updated'' v2),
                                  d(i \<mapsto> v2))))))"

text \<open>\<open>authorize(...roles)\<close>: \<open>None\<close> stands for \<open>next()\<close>.\<close>

definition role_name :: "role \<Rightarrow> string" where
  "role_name r = (case r of ADMIN \<Rightarrow> ''ADMIN'' | EDITOR \<Rightarrow> ''EDITOR'' | VIEWER \<Rightarrow> ''VIEWER'')"

fun join_or :: "string list \<Rightarrow> string" where
  "join_or [] = []"
| "join_or [x] = x"
| "join_or (x # y # ys) = x @ '' or '' @ join_or (y # ys)"

definition authorize :: "role list \<Rightarrow> principal option \<Rightarrow> response option" where
  "authorize roles user =
     (case user of
        None \<Rightarrow> Some (Json 401 (Msg ''Authentication required''))
      | Some u \<Rightarrow>
          if p_role u \<in> set roles then None
          else Some (Json 403 (Msg (''Access denied. Required role: ''
                                     @ join_or (map role_name roles)))))"

text \<open>\<open>ensureTenantAccess\<close> with the \<open>tenantId\<close> of the params and of the body, when given.\<close>

definition ensureTenantAccess ::
  "principal option \<Rightarrow> tid option \<Rightarrow> tid option \<Rightarrow> response option" where
  "ensureTenantAccess user params_tenant body_tenant =
     (case user of
        None \<Rightarrow> Some (Json 401 (Msg ''Authentication required''))
      | Some u \<Rightarrow>
          if (case params_tenant of None \<Rightarrow> False | Some t \<Rightarrow> t \<noteq> p_tenantId u)
          then Some (Json 403
                 (Msg ''Access denied: Cannot access resources from another tenant''))
          else if (case body_tenant of None \<Rightarrow> False | Some t \<Rightarrow> t \<noteq> p_tenantId u)
          then Some (Json 403
                 (Msg ''Access denied: Cannot create resources for another tenant''))
          else None)"

text \<open>
  The route \<open>router.patch('/:id/status', authorize('ADMIN'), ensureTenantAccess,
  updateProcessingStatus)\<close>, after \<open>authenticate\<close> has set \<open>req.user\<close>.
\<close>

definition patch_status_route ::
  "'a henv_scheme \<Rightarrow> db \<Rightarrow> principal \<Rightarrow> vid \<Rightarrow> tid option \<Rightarrow> string \<Rightarrow> string option
     \<Rightarrow> response \<times> db" where
  "patch_status_route env d u i body_tenant st err =
     (case authorize [ADMIN] (Some u) of
        Some r \<Rightarrow> (r, d)
      | None \<Rightarrow>
          (case ensureTenantAccess (Some u) None body_tenant of
             Some r \<Rightarrow> (r, d)
           | None \<Rightarrow> updateProcessingStatus env d u i st err))"

section \<open>Progress broadcast (config/socket.js)\<close>

datatype scan_status = SAFE | SCAN_FLAGGED

text \<open>The data of a progress event beside its percentage and stage.\<close>

datatype detail =
    Message string
  | MetadataExtracted string "int option" "nat option" "nat option" "string option"
  | ScanComplete string scan_status
  | Finished string status

record snapshot =
  s_id :: vid
  s_title :: string
  s_processingStatus :: status
  s_duration :: "int option"
  s_metadata :: "tech_metadata option"

text \<open>
  What a run does to the outside, in order: a successful \<open>video.save()\<close> with the
  document stored, and the three events sent to the room of a tenant.
\<close>

datatype event =
    Saved vid video
  | ProgressEv tid vid nat string detail
  | CompletionEv tid vid status snapshot
  | ErrorEv tid vid string

text \<open>Each emitter returns without sending when the socket server is not initialised.\<close>

definition emitProgress :: "bool \<Rightarrow> tid \<Rightarrow> vid \<Rightarrow> nat \<Rightarrow> string \<Rightarrow> detail \<Rightarrow> event list" where
  "emitProgress io' t i progress stage data =
     (if \<not> io' then [] else [ProgressEv t i progress stage data])"

definition emitCompletion :: "bool \<Rightarrow> tid \<Rightarrow> vid \<Rightarrow> status \<Rightarrow> snapshot \<Rightarrow> event list" where
  "emitCompletion io' t i st videoData =
     (if \<not> io' then [] else [CompletionEv t i st videoData])"

definition emitError :: "bool \<Rightarrow> tid \<Rightarrow> vid \<Rightarrow> string \<Rightarrow> event list" where
  "emitError io' t i err = (if \<not> io' then [] else [ErrorEv t i err])"

section \<open>Processing service (services/processing.service.js)\<close>

definition SENSITIVITY_KEYWORDS :: "string list" where
  "SENSITIVITY_KEYWORDS = [''test_flag'', ''flag'', ''sensitive'', ''nsfw'', ''explicit'']"

text \<open>A JavaScript number that may be \<open>NaN\<close>.\<close>

datatype 'a js_number = NaN | Num 'a

text \<open>
  The object \<open>extractMetadata\<close> resolves with; \<open>None\<close> stands for \<open>null\<close>. The duration
  is \<open>NaN\<close> when \<open>Math.round\<close> of what \<open>ffprobe\<close> reports is (its \<open>N/A\<close>), the bit rate
  and the size when \<open>parseInt\<close> finds no digit, the frame rate when either part of the
  fraction is no number or both are zero. A frame rate of denominator zero and another
  numerator, an infinite quotient, has no counterpart here; no test of the code reads the
  frame rate.
\<close>

record probe =
  pr_duration :: "real js_number"
  pr_width :: "nat option"
  pr_height :: "nat option"
  pr_bitrate :: "nat js_number option"
  pr_codec :: "string option"
  pr_frameRate :: "real js_number option"
  pr_audioCodec :: "string option"
  pr_size :: "nat js_number option"

text \<open>
  Assigning \<open>NaN\<close> to a number path of a mongoose document fails to cast: the path keeps
  the value it had and the document is invalid, so that its next \<open>save()\<close> is rejected
  before anything is sent to the store.
\<close>

definition has_nan :: "probe \<Rightarrow> bool" where
  "has_nan md =
     (pr_duration md = NaN \<or> pr_bitrate md = Some NaN \<or> pr_frameRate md = Some NaN)"

definition number_or :: "'a option \<Rightarrow> 'a js_number option \<Rightarrow> 'a option" where
  "number_or kept x = (case x of None \<Rightarrow> None | Some NaN \<Rightarrow> kept | Some (Num n) \<Rightarrow> Some n)"

text \<open>
  \<open>extractMetadata\<close>: the outcome of \<open>ffmpeg.ffprobe\<close> is given, either its error message
  or the fields read from its report.
\<close>

definition extractMetadata :: "files \<Rightarrow> string + probe \<Rightarrow> string \<Rightarrow> string + probe" where
  "extractMetadata fs ffprobe_result path =
     (if fs path = None then Inl ''Video file not found''
      else (case ffprobe_result of
              Inl m \<Rightarrow> Inl (''FFprobe error: '' @ m)
            | Inr md \<Rightarrow> Inr md))"

record scan_result =
  sr_status :: scan_status
  sr_reason :: "string option"

definition keyword_hit :: "string \<Rightarrow> string \<Rightarrow> bool" where
  "keyword_hit filenameLower keyword = js_includes filenameLower (toLowerCase keyword)"

text \<open>
  \<open>simulateAISensitivityScan\<close>, with the value of \<open>Math.random()\<close> given as \<open>random\<close>,
  a number of the interval from 0 to 1; a double is below the double nearest to 0.1 exactly
  when it is below one tenth. The delay of ten seconds has no counterpart here.
  \<open>CHR 0x22\<close> is the double quote.
\<close>

definition simulateAISensitivityScan :: "real \<Rightarrow> string \<Rightarrow> scan_result" where
  "simulateAISensitivityScan random filename =
     (let filenameLower = toLowerCase filename;
          hasKeyword = list_ex (keyword_hit filenameLower) SENSITIVITY_KEYWORDS
      in if hasKeyword
         then
           (let matchedKeyword =
                  (case find (keyword_hit filenameLower) SENSITIVITY_KEYWORDS of
                     None \<Rightarrow> ''undefined'' | Some k \<Rightarrow> k)
            in \<lparr>sr_status = SCAN_FLAGGED,
                sr_reason = Some (''Sensitivity keyword detected: '' @ [CHR 0x22]
                                   @ matchedKeyword @ [CHR 0x22])\<rparr>)
         else if random < 0.1
         then \<lparr>sr_status = SCAN_FLAGGED,
               sr_reason = Some ''AI analysis detected potential content issues''\<rparr>
         else \<lparr>sr_status = SAFE, sr_reason = None\<rparr>)"

text \<open>
  What a run cannot see in its arguments: whether the socket server is initialised, whether
  each store operation throws (and with which message), what \<open>ffprobe\<close> reports and what
  \<open>Math.random()\<close> returns. \<open>find1\<close> and \<open>save1\<close> are the lookup and the save of
  PROCESSING, \<open>save2\<close> the final save, \<open>find2\<close> and \<open>save3\<close> those of the \<open>catch\<close> block.
  \<open>cast_message\<close> is the message of the error with which mongoose rejects the save of an
  invalid document.
\<close>

record penv =
  io :: bool
  find1_throws :: "string option"
  save1_throws :: "string option"
  ffprobe :: "string + probe"
  random_draw :: real
  save2_throws :: "string option"
  find2_throws :: "string option"
  save3_throws :: "string option"
  cast_message :: string

text \<open>
  \<open>video.save()\<close> of a valid document: when the store operation throws, nothing is
  written; otherwise mongoose sends an update only if a path was modified, that is, the
  run being the only writer, if the document differs from the stored one.
\<close>

definition save ::
  "string option \<Rightarrow> db \<Rightarrow> vid \<Rightarrow> video \<Rightarrow> string + event list \<times> db" where
  "save throws d i v =
     (case throws of
        Some m \<Rightarrow> Inl m
      | None \<Rightarrow> if d i = Some v then Inr ([], d) else Inr ([Saved i v], d(i \<mapsto> v)))"

text \<open>\<open>scanResult.reason || 'Content flagged by AI analysis'\<close>\<close>

definition reason_or_default :: "string option \<Rightarrow> string" where
  "reason_or_default r =
     (case r of
        None \<Rightarrow> ''Content flagged by AI analysis''
      | Some x \<Rightarrow> if x = [] then ''Content flagged by AI analysis'' else x)"

text \<open>
  The \<open>try\<close> block of \<open>processVideo\<close>: \<open>Inl m\<close> when it throws an error of message \<open>m\<close>,
  with the events so far and the collection as the saves left it.
\<close>

definition processVideo_try ::
  "penv \<Rightarrow> db \<Rightarrow> files \<Rightarrow> vid \<Rightarrow> tid \<Rightarrow> (string + unit) \<times> event list \<times> db" where
  "processVideo_try env d fs videoId t =
     (case find1_throws env of
        Some m \<Rightarrow> (Inl m, [], d)
      | None \<Rightarrow>
     (case d videoId of
        None \<Rightarrow> (Inl ''Video not found'', [], d)
      | Some found \<Rightarrow>
     (let video1 = found\<lparr>processingStatus := PROCESSING\<rparr>
      in case save (save1_throws env) d videoId video1 of
        Inl m \<Rightarrow> (Inl m, [], d)
      | Inr (written1, d1) \<Rightarrow>
     (let tr1 = written1
                @ emitProgress (io env) t videoId 0 ''Initializing''
                    (Message ''Video processing started'')
                @ emitProgress (io env) t videoId 10 ''Extracting Metadata''
                    (Message ''Analyzing video file...'')
      in case extractMetadata fs (ffprobe env) (filePath video1) of
        Inl m \<Rightarrow> (Inl (''Metadata extraction failed: '' @ m), tr1, d1)
      | Inr md \<Rightarrow>
     (let video2 = video1
            \<lparr>duration := (case pr_duration md of
                            NaN \<Rightarrow> duration video1
                          | Num x \<Rightarrow> Some (round x)),
             metadata := Some \<lparr>width = pr_width md, height = pr_height md,
                               bitrate = number_or None (pr_bitrate md),
                               codec = pr_codec md,
                               frameRate = number_or None (pr_frameRate md)\<rparr>\<rparr>;
          tr2 = tr1
                @ emitProgress (io env) t videoId 25 ''Metadata Extracted''
                    (MetadataExtracted ''Video metadata extracted successfully''
                       (duration video2) (pr_width md) (pr_height md) (pr_codec md))
                @ emitProgress (io env) t videoId 30 ''AI Sensitivity Scan''
                    (Message ''Running AI content analysis...'');
          scanResult = simulateAISensitivityScan (random_draw env) (originalFilename video2);
          tr3 = tr2
                @ emitProgress (io env) t videoId 75 ''AI Scan Complete''
                    (ScanComplete ''Content analysis completed'' (sr_status scanResult))
                @ emitProgress (io env) t videoId 90 ''Finalizing''
                    (Message ''Finalizing video processing...'');
          video3 = (if sr_status scanResult = SCAN_FLAGGED
                    then video2\<lparr>processingStatus := FLAGGED,
                                processingError :=
                                  Some (reason_or_default (sr_reason scanResult))\<rparr>
                    else video2\<lparr>processingStatus := COMPLETED\<rparr>)
      in if has_nan md then (Inl (cast_message env), tr3, d1)
         else
           (case save (save2_throws env) d1 videoId video3 of
              Inl m \<Rightarrow> (Inl m, tr3, d1)
            | Inr (written3, d3) \<Rightarrow>
                (Inr (),
                 tr3 @ written3
                   @ emitProgress (io env) t videoId 100 ''Completed''
                       (Finished ''Video processing completed'' (processingStatus video3))
                   @ emitCompletion (io env) t videoId (processingStatus video3)
                       \<lparr>s_id = videoId, s_title = title video3,
                        s_processingStatus = processingStatus video3,
                        s_duration = duration video3, s_metadata = metadata video3\<rparr>,
                 d3)))))))"

text \<open>
  The \<open>catch\<close> block: the document is fetched again and saved as FLAGGED with the message,
  a failure of that being logged only; then the error event is sent.
\<close>

definition processVideo_catch ::
  "penv \<Rightarrow> db \<Rightarrow> vid \<Rightarrow> tid \<Rightarrow> string \<Rightarrow> event list \<times> db" where
  "processVideo_catch env d videoId t msg =
     (let (written, d') =
            (case find2_throws env of
               Some m \<Rightarrow> ([], d)
             | None \<Rightarrow>
                 (case d videoId of
                    None \<Rightarrow> ([], d)
                  | Some found \<Rightarrow>
                      (let video = found\<lparr>processingStatus := FLAGGED,
                                          processingError := Some msg\<rparr>
                       in case save (save3_throws env) d videoId video of
                            Inl m \<Rightarrow> ([], d)
                          | Inr (written3, d3) \<Rightarrow> (written3, d3))))
      in (written @ emitError (io env) t videoId msg, d'))"

text \<open>\<open>processVideo\<close>: the first component is \<open>Inl\<close> when the promise is rejected.\<close>

definition processVideo ::
  "penv \<Rightarrow> db \<Rightarrow> files \<Rightarrow> vid \<Rightarrow> tid \<Rightarrow> (string + unit) \<times> event list \<times> db" where
  "processVideo env d fs videoId t =
     (case processVideo_try env d fs videoId t of
        (Inr u, tr, d') \<Rightarrow> (Inr (), tr, d')
      | (Inl msg, tr, d') \<Rightarrow>
          (let (tr', d'') = processVideo_catch env d' videoId t msg
           in (Inr (), tr @ tr', d'')))"

text \<open>
  \<open>startProcessing\<close>: a rejection of \<open>processVideo\<close> is logged by the \<open>.catch\<close> handler;
  the first component is \<open>Inl\<close> when something is thrown to the caller.
\<close>

definition startProcessing ::
  "penv \<Rightarrow> db \<Rightarrow> files \<Rightarrow> vid \<Rightarrow> tid \<Rightarrow> (string + unit) \<times> event list \<times> db" where
  "startProcessing env d fs videoId t =
     (case processVideo env d fs videoId t of
        (Inl e, tr, d') \<Rightarrow> (Inr (), tr, d')
      | (Inr u, tr, d') \<Rightarrow> (Inr (), tr, d'))"

section \<open>Observations on a run\<close>

text \<open>
  The documents and the events of the stages of a run, named to state what a run does
  case by case: the document after the first assignment, after the metadata were assigned
  and after the final assignment; the write of the first save, which mongoose sends only
  when the status was not PROCESSING already; the progress events before the extraction,
  around the scan, and after the final save.
\<close>

definition video_started :: "video \<Rightarrow> video" where
  "video_started v = v\<lparr>processingStatus := PROCESSING\<rparr>"

definition video_extracted :: "video \<Rightarrow> probe \<Rightarrow> video" where
  "video_extracted v md =
     v\<lparr>duration := (case pr_duration md of NaN \<Rightarrow> duration v | Num x \<Rightarrow> Some (round x)),
       metadata := Some \<lparr>width = pr_width md, height = pr_height md,
                         bitrate = number_or None (pr_bitrate md),
                         codec = pr_codec md,
                         frameRate = number_or None (pr_frameRate md)\<rparr>\<rparr>"

definition video_finalized :: "video \<Rightarrow> scan_result \<Rightarrow> video" where
  "video_finalized v scanResult =
     (if sr_status scanResult = SCAN_FLAGGED
      then v\<lparr>processingStatus := FLAGGED,
             processingError := Some (reason_or_default (sr_reason scanResult))\<rparr>
      else v\<lparr>processingStatus := COMPLETED\<rparr>)"

definition first_write :: "vid \<Rightarrow> video \<Rightarrow> event list" where
  "first_write i v =
     (if processingStatus v = PROCESSING then [] else [Saved i (video_started v)])"

definition events_start :: "bool \<Rightarrow> tid \<Rightarrow> vid \<Rightarrow> event list" where
  "events_start b t i =
     emitProgress b t i 0 ''Initializing'' (Message ''Video processing started'')
     @ emitProgress b t i 10 ''Extracting Metadata'' (Message ''Analyzing video file...'')"

definition events_scan ::
  "bool \<Rightarrow> tid \<Rightarrow> vid \<Rightarrow> video \<Rightarrow> probe \<Rightarrow> scan_result \<Rightarrow> event list" where
  "events_scan b t i v md scanResult =
     emitProgress b t i 25 ''Metadata Extracted''
       (MetadataExtracted ''Video metadata extracted successfully''
          (duration v) (pr_width md) (pr_height md) (pr_codec md))
     @ emitProgress b t i 30 ''AI Sensitivity Scan'' (Message ''Running AI content analysis...'')
     @ emitProgress b t i 75 ''AI Scan Complete''
         (ScanComplete ''Content analysis completed'' (sr_status scanResult))
     @ emitProgress b t i 90 ''Finalizing'' (Message ''Finalizing video processing...'')"

definition events_end :: "bool \<Rightarrow> tid \<Rightarrow> vid \<Rightarrow> video \<Rightarrow> event list" where
  "events_end b t i v =
     emitProgress b t i 100 ''Completed''
       (Finished ''Video processing completed'' (processingStatus v))
     @ emitCompletion b t i (processingStatus v)
         \<lparr>s_id = i, s_title = title v, s_processingStatus = processingStatus v,
          s_duration = duration v, s_metadata = metadata v\<rparr>"

text \<open>
  What a run that found the artifact \<open>v\<close> and extracted the metadata \<open>md\<close> has done when it
  reaches the final save, and the document it saves there.
\<close>

definition final_video :: "penv \<Rightarrow> video \<Rightarrow> probe \<Rightarrow> video" where
  "final_video env v md =
     video_finalized (video_extracted (video_started v) md)
       (simulateAISensitivityScan (random_draw env) (originalFilename v))"

definition trace_before_final :: "penv \<Rightarrow> tid \<Rightarrow> vid \<Rightarrow> video \<Rightarrow> probe \<Rightarrow> event list" where
  "trace_before_final env t i v md =
     first_write i v @ events_start (io env) t i
     @ events_scan (io env) t i (video_extracted (video_started v) md) md
         (simulateAISensitivityScan (random_draw env) (originalFilename v))"

text \<open>The document the \<open>catch\<close> block saves.\<close>

definition video_flagged :: "video \<Rightarrow> string \<Rightarrow> video" where
  "video_flagged v msg = v\<lparr>processingStatus := FLAGGED, processingError := Some msg\<rparr>"

text \<open>The statuses a run persisted for an artifact, in order.\<close>

fun saved_statuses :: "vid \<Rightarrow> event list \<Rightarrow> status list" where
  "saved_statuses i [] = []"
| "saved_statuses i (Saved j v # es) =
     (if j = i then processingStatus v # saved_statuses i es else saved_statuses i es)"
| "saved_statuses i (e # es) = saved_statuses i es"

text \<open>The collection after the saves among the given events.\<close>

fun replay :: "db \<Rightarrow> event list \<Rightarrow> db" where
  "replay d [] = d"
| "replay d (Saved j v # es) = replay (d(j \<mapsto> v)) es"
| "replay d (e # es) = replay d es"

text \<open>The events a run sent to the room of the tenant, its saves left out.\<close>

fun is_saved :: "event \<Rightarrow> bool" where
  "is_saved (Saved i v) = True"
| "is_saved e = False"

definition broadcasts :: "event list \<Rightarrow> event list" where
  "broadcasts tr = filter (\<lambda>e. \<not> is_saved e) tr"

fun is_error_event :: "event \<Rightarrow> bool" where
  "is_error_event (ErrorEv t i m) = True"
| "is_error_event e = False"

text \<open>The position of a status in the order PENDING, PROCESSING, terminal.\<close>

fun rank :: "status \<Rightarrow> nat" where
  "rank PENDING = 0"
| "rank PROCESSING = 1"
| "rank COMPLETED = 2"
| "rank FLAGGED = 2"

text \<open>
  A check of a run against the collection it starts from: every progress event is sent
  when the stored record of its artifact has the status the event stands for (the terminal
  status it names for the last one, PROCESSING for the others), and every completion event
  when the stored record has the status and the fields of its snapshot. With \<open>strict\<close>,
  an error event is also required to find the record stored as FLAGGED with its message.
\<close>

fun announces_persisted :: "bool \<Rightarrow> db \<Rightarrow> event list \<Rightarrow> bool" where
  "announces_persisted strict d [] = True"
| "announces_persisted strict d (Saved j v # es) = announces_persisted strict (d(j \<mapsto> v)) es"
| "announces_persisted strict d (ProgressEv t j p st dt # es) =
     ((case d j of
         None \<Rightarrow> False
       | Some w \<Rightarrow>
           (case dt of
              Finished m s \<Rightarrow> processingStatus w = s \<and> (s = COMPLETED \<or> s = FLAGGED)
            | _ \<Rightarrow> processingStatus w = PROCESSING))
      \<and> announces_persisted strict d es)"
| "announces_persisted strict d (CompletionEv t j s sn # es) =
     ((case d j of
         None \<Rightarrow> False
       | Some w \<Rightarrow>
           processingStatus w = s \<and> (s = COMPLETED \<or> s = FLAGGED)
           \<and> sn = \<lparr>s_id = j, s_title = title w, s_processingStatus = processingStatus w,
                    s_duration = duration w, s_metadata = metadata w\<rparr>)
      \<and> announces_persisted strict d es)"
| "announces_persisted strict d (ErrorEv t j m # es) =
     ((if strict
       then (case d j of
               None \<Rightarrow> False
             | Some w \<Rightarrow> processingStatus w = FLAGGED \<and> processingError w = Some m)
       else True)
      \<and> announces_persisted strict d es)"

text \<open>
  The wording of the specification, to compare the scan with: the term occurs in the
  display name as a case-insensitive substring, that is, at some position of the name the
  next characters are those of the term, each the same letter up to its case. The letters
  that have two cases are listed: the ASCII alphabet, and the Latin-1 capitals of codes 192
  to 214 and 216 to 222, whose small letters lie 32 above.
\<close>

definition spec_case_pairs :: "(char \<times> char) list" where
  "spec_case_pairs =
     zip ''ABCDEFGHIJKLMNOPQRSTUVWXYZ'' ''abcdefghijklmnopqrstuvwxyz''
     @ map (\<lambda>k. (char_of k, char_of (k + 32))) ([192 ..< 215] @ [216 ..< 223 :: nat])"

definition spec_same_letter :: "char \<Rightarrow> char \<Rightarrow> bool" where
  "spec_same_letter a b =
     (a = b \<or> (a, b) \<in> set spec_case_pairs \<or> (b, a) \<in> set spec_case_pairs)"

definition spec_contains_ci :: "string \<Rightarrow> string \<Rightarrow> bool" where
  "spec_contains_ci name kw =
     list_ex (\<lambda>k. list_all2 spec_same_letter (take (length kw) (drop k name)) kw)
       [0 ..< Suc (length name)]"

section \<open>Sample data\<close>

definition sample_video :: video where
  "sample_video =
     \<lparr>title = ''Clip'', originalFilename = ''clip.mp4'', filePath = ''uploads/clip.mp4'',
      fileSize = 1000, mimeType = ''video/mp4'', duration = Some 12,
      processingStatus = COMPLETED, processingError = None, metadata = None,
      tenantId = 1, uploadedBy = 7, isPublic = False, views = 0\<rparr>"

definition sample_db :: db where
  "sample_db =
     [1 \<mapsto> sample_video,
      2 \<mapsto> sample_video\<lparr>processingStatus := FLAGGED,
                         processingError := Some ''AI analysis detected potential content issues''\<rparr>,
      3 \<mapsto> sample_video\<lparr>processingStatus := PENDING\<rparr>,
      4 \<mapsto> sample_video\<lparr>processingStatus := PROCESSING\<rparr>]"

definition sample_files :: files where
  "sample_files = [''uploads/clip.mp4'' \<mapsto> replicate 1000 (CHR ''a'')]"

definition sample_users :: "uid \<rightharpoonup> user" where
  "sample_users =
     [3 \<mapsto> \<lparr>u_role = ADMIN, u_isActive = True, u_tenant = Some (1, True)\<rparr>,
      9 \<mapsto> \<lparr>u_role = VIEWER, u_isActive = True, u_tenant = Some (1, True)\<rparr>,
      4 \<mapsto> \<lparr>u_role = ADMIN, u_isActive = True, u_tenant = Some (2, True)\<rparr>]"

definition sample_senv :: senv where
  "sample_senv =
     \<lparr>find_throws = None, save_throws = None, dev = False,
      jwt_verify = (\<lambda>tok. if tok = ''token-admin'' then Some 3
                          else if tok = ''token-viewer'' then Some 9
                          else if tok = ''token-other'' then Some 4 else None),
      users = sample_users\<rparr>"

definition sample_req :: "string \<Rightarrow> vid \<Rightarrow> string option \<Rightarrow> stream_req" where
  "sample_req tok i rng = \<lparr>r_id = i, r_user = None, r_token = Some tok, r_range = rng\<rparr>"

definition uploaded_video :: video where
  "uploaded_video =
     \<lparr>title = ''Holiday'', originalFilename = ''holiday.mp4'', filePath = ''uploads/clip.mp4'',
      fileSize = 1000, mimeType = ''video/mp4'', duration = None,
      processingStatus = PENDING, processingError = None, metadata = None,
      tenantId = 1, uploadedBy = 7, isPublic = False, views = 0\<rparr>"

definition pipeline_db :: db where
  "pipeline_db =
     [5 \<mapsto> uploaded_video,
      6 \<mapsto> uploaded_video\<lparr>originalFilename := ''My_FLAG_video.mp4''\<rparr>,
      7 \<mapsto> uploaded_video\<lparr>processingStatus := PROCESSING\<rparr>]"

definition sample_probe :: probe where
  "sample_probe =
     \<lparr>pr_duration = Num 12, pr_width = Some 1920, pr_height = Some 1080,
      pr_bitrate = Some (Num 800000), pr_codec = Some ''h264'', pr_frameRate = Some (Num 30),
      pr_audioCodec = Some ''aac'', pr_size = Some (Num 1000)\<rparr>"

definition sample_penv :: penv where
  "sample_penv =
     \<lparr>io = True, find1_throws = None, save1_throws = None, ffprobe = Inr sample_probe,
      random_draw = 0.5, save2_throws = None, find2_throws = None, save3_throws = None,
      cast_message = ''Video validation failed''\<rparr>"

definition sample_henv :: henv where
  "sample_henv = \<lparr>find_throws = None, save_throws = None, dev = False\<rparr>"

section \<open>Auxiliary lemmas: decimal numerals and the range header\<close>

declare dec.simps [simp del]

lemma is_digit_digit_char: "k < 10 \<Longrightarrow> is_digit (digit_char k)"
  by (simp add: is_digit_def digit_char_def)

lemma digit_val_digit_char: "k < 10 \<Longrightarrow> digit_val (digit_char k) = k"
  by (simp add: digit_val_def digit_char_def)

lemma dec_digits: "c \<in> set (dec n) \<Longrightarrow> is_digit c"
proof (induction n arbitrary: c rule: dec.induct)
  case (1 n)
  show ?case
  proof (cases "n < 10")
    case True
    with "1.prems" show ?thesis
      by (simp add: dec.simps [of n] is_digit_digit_char)
  next
    case False
    with "1.prems" "1.IH" show ?thesis
      by (auto simp: dec.simps [of n] is_digit_digit_char)
  qed
qed

lemma dec_nonempty: "dec n \<noteq> []"
  by (simp add: dec.simps [of n])

lemma digits_value_snoc: "digits_value (ds @ [c]) = 10 * digits_value ds + digit_val c"
  by (simp add: digits_value_def)

lemma digits_value_dec: "digits_value (dec n) = n"
proof (induction n rule: dec.induct)
  case (1 n)
  show ?case
  proof (cases "n < 10")
    case True
    then show ?thesis
      by (simp add: dec.simps [of n] digits_value_def digit_val_digit_char)
  next
    case False
    with "1.IH" show ?thesis
      by (simp add: dec.simps [of n] digits_value_snoc digit_val_digit_char)
  qed
qed

lemma digit_not_space: "is_digit c \<Longrightarrow> \<not> is_js_space c"
  by (auto simp: is_digit_def is_js_space_def)

lemma digit_not_sign: "is_digit c \<Longrightarrow> c \<noteq> CHR ''-'' \<and> c \<noteq> CHR ''+''"
  by (auto simp: is_digit_def)

lemma parseInt_digits:
  assumes "ds \<noteq> []" and "\<And>c. c \<in> set ds \<Longrightarrow> is_digit c"
  shows "parseInt ds = Some (int (digits_value ds))"
proof -
  obtain c cs where ds: "ds = c # cs"
    using assms(1) by (cases ds) auto
  have c: "is_digit c" using assms(2) ds by simp
  have rest: "takeWhile is_digit cs = cs"
    using assms(2) ds by (simp add: takeWhile_eq_all_conv)
  show ?thesis
    using c digit_not_sign [OF c] digit_not_space [OF c]
    by (simp add: parseInt_def Let_def ds rest del: takeWhile_eq_all_conv)
qed

lemma parseInt_dec: "parseInt (dec n) = Some (int n)"
  using parseInt_digits [of "dec n"] dec_nonempty dec_digits by (simp add: digits_value_dec)

lemma js_split_nosep: "d \<notin> set a \<Longrightarrow> js_split d a = [a]"
  by (induction a) auto

lemma js_split_sep: "d \<notin> set a \<Longrightarrow> js_split d (a @ d # b) = a # js_split d b"
  by (induction a) auto

lemma dash_not_in_dec: "CHR ''-'' \<notin> set (dec n)"
  using dec_digits digit_not_sign by blast

lemma range_parts_full: "range_parts (''bytes='' @ dec s @ ''-'' @ dec e) = [dec s, dec e]"
  by (simp add: range_parts_def js_split_sep js_split_nosep dash_not_in_dec)

lemma range_parts_open: "range_parts (''bytes='' @ dec s @ ''-'') = [dec s, []]"
  by (simp add: range_parts_def js_split_sep dash_not_in_dec)


lemma dec_examples:
  "dec 0 = ''0''" "dec 99 = ''99''" "dec 100 = ''100''" "dec 999 = ''999''" "dec 1000 = ''1000''"
  "dec 2000 = ''2000''" "dec 2100 = ''2100''"
  by code_simp+

lemmas parse_simps = range_start_def range_end_def range_parts_def js_index_def parseInt_def
  is_js_space_def is_digit_def digits_value_def digit_val_def js_ge_def createReadStream_def chunksize_def

lemma resolve_identity_id [simp]: "resolve_identity env (req\<lparr>r_id := j\<rparr>) = resolve_identity env req"
  by (simp add: resolve_identity_def split: option.split)

lemma range_start_dec: "range_start (''bytes='' @ dec s @ ''-'' @ rest) = Some (int s)"
  by (simp add: range_start_def range_parts_def js_split_sep dash_not_in_dec js_index_def parseInt_dec)

lemma range_end_dec: "range_end (''bytes='' @ dec s @ ''-'' @ dec e) n = Some (int e)"
  using range_parts_full [of s e] by (simp add: range_end_def js_index_def parseInt_dec dec_nonempty)

lemma range_end_open: "range_end (''bytes='' @ dec s @ ''-'') n = Some (n - 1)"
  using range_parts_open [of s] by (simp add: range_end_def js_index_def)

lemma show_num_nat: "show_num (Some (int n)) = dec n"
  by (simp add: show_num_def)

lemma createReadStream_span:
  assumes "s \<le> e"
  shows "createReadStream content (Some (int s)) (Some (int e)) =
           Inr (take (e - s + 1) (drop s content))"
proof -
  have sz: "nat (int e - int s + 1) = e - s + 1"
    using assms by linarith
  have ord: "\<not> int e < int s"
    using assms by simp
  show ?thesis
    unfolding createReadStream_def by (simp only: prod.case option.case sz ord nat_int) simp
qed

lemma send_file_span:
  assumes "r \<noteq> []"
    and "range_start r = Some (int s)"
    and "range_end r (int (length content)) = Some (int e)"
    and "s \<le> e" and "e < length content"
  shows "send_file dv v content (Some r) =
     Stream 206
       [(''Content-Range'', ''bytes '' @ dec s @ ''-'' @ dec e @ ''/'' @ dec (length content)),
        (''Accept-Ranges'', ''bytes''),
        (''Content-Length'', dec (e - s + 1)),
        (''Content-Type'', content_type v),
        (''Cache-Control'', ''no-cache'')]
       (take (e - s + 1) (drop s content))"
proof -
  have ck: "chunksize (Some (int s)) (Some (int e)) = Some (int (e - s + 1))"
    using assms(4) by (simp add: chunksize_def)
  have ge: "\<not> js_ge (Some (int s)) (int (length content))"
           "\<not> js_ge (Some (int e)) (int (length content))"
    using assms(4,5) by (simp_all add: js_ge_def)
  show ?thesis
    unfolding send_file_def Let_def
    by (simp only: assms(1,2,3) ge ck createReadStream_span [OF assms(4)] show_num_nat
          option.case sum.case if_False simp_thms)
qed

lemma send_file_416:
  assumes "r \<noteq> []"
    and "js_ge (range_start r) (int (length content)) \<or> js_ge (range_end r (int (length content))) (int (length content))"
  shows "send_file dv v content (Some r) = Json 416 (Msg ''Range Not Satisfiable'')"
  using assms unfolding send_file_def Let_def by simp

lemma send_file_whole:
  "send_file dv v content None =
     Stream 200 [(''Content-Length'', dec (length content)), (''Content-Type'', content_type v),
                 (''Accept-Ranges'', ''bytes'')] content"
  unfolding send_file_def Let_def by (simp add: show_num_nat)

lemma streamVideo_completed:
  assumes "resolve_identity env req = Inr u"
    and "find_throws env = None"
    and "findOne d (r_id req) u = Some v"
    and "processingStatus v = COMPLETED"
    and "fs (filePath v) = Some content"
  shows "streamVideo env d fs req = (send_file (dev env) v content (r_range req), d)"
  using assms by (simp add: streamVideo_def)


lemma resolve_identity_range [simp]:
  "resolve_identity env (req\<lparr>r_range := x\<rparr>) = resolve_identity env req"
  by (simp add: resolve_identity_def split: option.split)

lemma resolve_identity_rejects:
  "resolve_identity env req = Inl r \<Longrightarrow> \<exists>m. r = Json 401 (Msg m)"
  by (auto simp: resolve_identity_def split: option.splits if_splits prod.splits)

lemmas sample_simps = sample_senv_def sample_db_def sample_files_def sample_users_def
  sample_req_def sample_video_def resolve_identity_def findOne_def streamVideo_def

section \<open>Range-aware content server\<close>

text \<open>
  C3, as stated, fails: a fetch of a COMPLETED artifact of 1000 bytes with
  \<open>Range: bytes=50-10\<close> (start after end) or \<open>Range: bytes=abc\<close> (malformed) is not
  answered with 416: neither test of the controller holds, \<open>fs.createReadStream\<close> throws
  and the \<open>catch\<close> block answers 500; the malformed \<open>Range: bytes=0x-\<close> is answered with
  206 and the whole file.
\<close>

theorem range_not_416_counterexample:
  "processingStatus sample_video = COMPLETED
   \<and> length (replicate 1000 (CHR ''a'')) = 1000
   \<and> fst (streamVideo sample_senv sample_db sample_files
             (sample_req ''token-admin'' 1 (Some ''bytes=50-10'')))
       = Json 500 (MsgError ''Error streaming video'' None)
   \<and> fst (streamVideo sample_senv sample_db sample_files
             (sample_req ''token-admin'' 1 (Some ''bytes=abc'')))
       = Json 500 (MsgError ''Error streaming video'' None)
   \<and> status_code (fst (streamVideo sample_senv sample_db sample_files
             (sample_req ''token-admin'' 1 (Some ''bytes=0x-'')))) = 206
   \<and> content_bytes (fst (streamVideo sample_senv sample_db sample_files
             (sample_req ''token-admin'' 1 (Some ''bytes=0x-'')))) = replicate 1000 (CHR ''a'')"
  by (simp add: sample_simps send_file_def parse_simps)

text \<open>
  C3, amended: for every fetch of a COMPLETED artifact of total size N by a requester who
  may see it, with a non-empty Range header whose start or end, as the controller parses
  them, is at least N, the response is 416 and carries no content byte; in particular
  for every header \<open>bytes=s-e\<close> with \<open>s \<ge> N\<close> or \<open>e \<ge> N\<close>.
\<close>

theorem range_beyond_size_is_416:
  assumes "resolve_identity env req = Inr u"
    and "find_throws env = None"
    and "findOne d (r_id req) u = Some v"
    and "processingStatus v = COMPLETED"
    and "fs (filePath v) = Some content"
  shows "(r \<noteq> [] \<and> (js_ge (range_start r) (int (length content))
                     \<or> js_ge (range_end r (int (length content))) (int (length content)))
          \<longrightarrow> fst (streamVideo env d fs (req\<lparr>r_range := Some r\<rparr>))
                = Json 416 (Msg ''Range Not Satisfiable'')
              \<and> content_bytes (fst (streamVideo env d fs (req\<lparr>r_range := Some r\<rparr>))) = [])
       \<and> (length content \<le> s \<or> length content \<le> e
          \<longrightarrow> fst (streamVideo env d fs
                       (req\<lparr>r_range := Some (''bytes='' @ dec s @ ''-'' @ dec e)\<rparr>))
                = Json 416 (Msg ''Range Not Satisfiable''))"
proof -
  have sv: "streamVideo env d fs (req\<lparr>r_range := Some x\<rparr>)
              = (send_file (dev env) v content (Some x), d)" for x
    using assms by (simp add: streamVideo_completed)
  have gen: "fst (streamVideo env d fs (req\<lparr>r_range := Some x\<rparr>))
             = Json 416 (Msg ''Range Not Satisfiable'')"
    if "x \<noteq> []"
      and "js_ge (range_start x) (int (length content))
           \<or> js_ge (range_end x (int (length content))) (int (length content))" for x
    using that by (simp add: sv send_file_416)
  have b: "fst (streamVideo env d fs
                  (req\<lparr>r_range := Some (''bytes='' @ dec s @ ''-'' @ dec e)\<rparr>))
             = Json 416 (Msg ''Range Not Satisfiable'')"
    if "length content \<le> s \<or> length content \<le> e"
  proof (rule gen)
    show "''bytes='' @ dec s @ ''-'' @ dec e \<noteq> []"
      by simp
    show "js_ge (range_start (''bytes='' @ dec s @ ''-'' @ dec e)) (int (length content))
          \<or> js_ge (range_end (''bytes='' @ dec s @ ''-'' @ dec e) (int (length content)))
               (int (length content))"
      using that by (simp only: range_start_dec range_end_dec) (simp add: js_ge_def)
  qed
  show ?thesis
    using gen [of r] b by simp
qed

theorem range_beyond_size_is_416_witness:
  "resolve_identity sample_senv (sample_req ''token-admin'' 1 None)
     = Inr \<lparr>p_id = 3, p_role = ADMIN, p_tenantId = 1\<rparr>
   \<and> find_throws sample_senv = None
   \<and> findOne sample_db 1 \<lparr>p_id = 3, p_role = ADMIN, p_tenantId = 1\<rparr> = Some sample_video
   \<and> processingStatus sample_video = COMPLETED
   \<and> sample_files (filePath sample_video) = Some (replicate 1000 (CHR ''a''))
   \<and> ''bytes=2000-'' \<noteq> []
   \<and> js_ge (range_start ''bytes=2000-'') (int (length (replicate 1000 (CHR ''a''))))
   \<and> fst (streamVideo sample_senv sample_db sample_files
             (sample_req ''token-admin'' 1 (Some ''bytes=2000-'')))
       = Json 416 (Msg ''Range Not Satisfiable'')
   \<and> content_bytes (fst (streamVideo sample_senv sample_db sample_files
                            (sample_req ''token-admin'' 1 (Some ''bytes=2000-'')))) = []
   \<and> length (replicate 1000 (CHR ''a'')) \<le> 2000
   \<and> fst (streamVideo sample_senv sample_db sample_files
             (sample_req ''token-admin'' 1 (Some ''bytes=2000-2100'')))
       = Json 416 (Msg ''Range Not Satisfiable'')"
proof -
  let ?u = "\<lparr>p_id = 3, p_role = ADMIN, p_tenantId = 1\<rparr>"
  let ?req = "sample_req ''token-admin'' 1 None"
  let ?content = "replicate 1000 (CHR ''a'')"
  have h1: "resolve_identity sample_senv ?req = Inr ?u"
    by (simp add: sample_simps)
  have h2: "find_throws sample_senv = None"
    by (simp add: sample_senv_def)
  have h3: "findOne sample_db 1 ?u = Some sample_video"
    by (simp add: sample_simps)
  have h3r: "findOne sample_db (r_id ?req) ?u = Some sample_video"
    using h3 by (simp add: sample_req_def)
  have h4: "processingStatus sample_video = COMPLETED"
    by (simp add: sample_video_def)
  have h5: "sample_files (filePath sample_video) = Some ?content"
    by (simp add: sample_files_def sample_video_def)
  have h6: "''bytes=2000-'' \<noteq> []"
    by simp
  have h7: "js_ge (range_start ''bytes=2000-'') (int (length ?content))"
    by (simp add: parse_simps)
  have h8: "length ?content \<le> 2000"
    by simp
  have rq: "?req\<lparr>r_range := x\<rparr> = sample_req ''token-admin'' 1 x" for x
    by (simp add: sample_req_def)
  have hdr: "''bytes='' @ dec 2000 @ ''-'' @ dec 2100 = ''bytes=2000-2100''"
    by (simp add: dec_examples)
  note main = range_beyond_size_is_416
         [where fs = sample_files and r = "''bytes=2000-''" and s = 2000 and e = 2100,
          OF h1 h2 h3r h4 h5, unfolded rq hdr]
  have a: "fst (streamVideo sample_senv sample_db sample_files
                  (sample_req ''token-admin'' 1 (Some ''bytes=2000-'')))
             = Json 416 (Msg ''Range Not Satisfiable'')
           \<and> content_bytes (fst (streamVideo sample_senv sample_db sample_files
                                   (sample_req ''token-admin'' 1 (Some ''bytes=2000-'')))) = []"
    using main h6 h7 by blast
  have b: "fst (streamVideo sample_senv sample_db sample_files
                  (sample_req ''token-admin'' 1 (Some ''bytes=2000-2100'')))
             = Json 416 (Msg ''Range Not Satisfiable'')"
    using main h8 by blast
  show ?thesis
    using h1 h2 h3 h4 h5 h6 h7 a h8 b by blast
qed

text \<open>
  C4: for every fetch of a COMPLETED artifact of total size N by a requester who may see
  it, a Range header \<open>bytes=s-e\<close> with \<open>s \<le> e < N\<close> is answered with status 206, the
  header \<open>Content-Range: bytes s-e/N\<close> and a body of exactly \<open>e - s + 1\<close> bytes, which are
  the bytes \<open>s\<close> to \<open>e\<close> of the file; with the end omitted it is \<open>N - 1\<close>; with no Range
  header the answer is status 200 with the whole file and \<open>Accept-Ranges: bytes\<close>.
\<close>

theorem range_span_served:
  assumes "resolve_identity env req = Inr u"
    and "find_throws env = None"
    and "findOne d (r_id req) u = Some v"
    and "processingStatus v = COMPLETED"
    and "fs (filePath v) = Some content"
  shows "(s \<le> e \<and> e < length content \<longrightarrow>
            fst (streamVideo env d fs
                   (req\<lparr>r_range := Some (''bytes='' @ dec s @ ''-'' @ dec e)\<rparr>))
              = Stream 206
                  [(''Content-Range'',
                      ''bytes '' @ dec s @ ''-'' @ dec e @ ''/'' @ dec (length content)),
                   (''Accept-Ranges'', ''bytes''),
                   (''Content-Length'', dec (e - s + 1)),
                   (''Content-Type'', content_type v),
                   (''Cache-Control'', ''no-cache'')]
                  (take (e - s + 1) (drop s content))
            \<and> length (take (e - s + 1) (drop s content)) = e - s + 1
            \<and> (\<forall>k < e - s + 1. take (e - s + 1) (drop s content) ! k = content ! (s + k)))
       \<and> (s < length content \<longrightarrow>
            fst (streamVideo env d fs (req\<lparr>r_range := Some (''bytes='' @ dec s @ ''-'')\<rparr>))
              = Stream 206
                  [(''Content-Range'',
                      ''bytes '' @ dec s @ ''-'' @ dec (length content - 1)
                        @ ''/'' @ dec (length content)),
                   (''Accept-Ranges'', ''bytes''),
                   (''Content-Length'', dec (length content - s)),
                   (''Content-Type'', content_type v),
                   (''Cache-Control'', ''no-cache'')]
                  (drop s content))
       \<and> fst (streamVideo env d fs (req\<lparr>r_range := None\<rparr>))
            = Stream 200
                [(''Content-Length'', dec (length content)),
                 (''Content-Type'', content_type v),
                 (''Accept-Ranges'', ''bytes'')] content"
proof -
  have sv: "streamVideo env d fs (req\<lparr>r_range := x\<rparr>)
              = (send_file (dev env) v content x, d)" for x
    using assms by (simp add: streamVideo_completed)
  have closed: "fst (streamVideo env d fs
                   (req\<lparr>r_range := Some (''bytes='' @ dec s @ ''-'' @ dec e)\<rparr>))
              = Stream 206
                  [(''Content-Range'',
                      ''bytes '' @ dec s @ ''-'' @ dec e @ ''/'' @ dec (length content)),
                   (''Accept-Ranges'', ''bytes''),
                   (''Content-Length'', dec (e - s + 1)),
                   (''Content-Type'', content_type v),
                   (''Cache-Control'', ''no-cache'')]
                  (take (e - s + 1) (drop s content))"
    if "s \<le> e" "e < length content"
    unfolding sv fst_conv
    by (rule send_file_span) (simp_all only: range_start_dec range_end_dec that, simp)
  have len: "length (take (e - s + 1) (drop s content)) = e - s + 1"
    if "s \<le> e" "e < length content"
    using that by simp
  have nth: "\<forall>k < e - s + 1. take (e - s + 1) (drop s content) ! k = content ! (s + k)"
    if "s \<le> e" "e < length content"
    using that by simp
  have open_ended: "fst (streamVideo env d fs (req\<lparr>r_range := Some (''bytes='' @ dec s @ ''-'')\<rparr>))
              = Stream 206
                  [(''Content-Range'',
                      ''bytes '' @ dec s @ ''-'' @ dec (length content - 1)
                        @ ''/'' @ dec (length content)),
                   (''Accept-Ranges'', ''bytes''),
                   (''Content-Length'', dec (length content - s)),
                   (''Content-Type'', content_type v),
                   (''Cache-Control'', ''no-cache'')]
                  (drop s content)"
    if "s < length content"
  proof -
    have e: "int (length content) - 1 = int (length content - 1)"
      using that by simp
    have st: "range_start (''bytes='' @ dec s @ ''-'') = Some (int s)"
      using range_start_dec [of s "[]"] by simp
    have "send_file (dev env) v content (Some (''bytes='' @ dec s @ ''-''))
            = Stream 206
                [(''Content-Range'',
                    ''bytes '' @ dec s @ ''-'' @ dec (length content - 1)
                      @ ''/'' @ dec (length content)),
                 (''Accept-Ranges'', ''bytes''),
                 (''Content-Length'', dec (length content - 1 - s + 1)),
                 (''Content-Type'', content_type v),
                 (''Cache-Control'', ''no-cache'')]
                (take (length content - 1 - s + 1) (drop s content))"
      by (rule send_file_span) (use that in \<open>simp_all only: st range_end_open e\<close>, simp_all)
    moreover have "length content - 1 - s + 1 = length content - s"
      using that by simp
    ultimately show ?thesis
      unfolding sv fst_conv by simp
  qed
  have whole: "fst (streamVideo env d fs (req\<lparr>r_range := None\<rparr>))
            = Stream 200
                [(''Content-Length'', dec (length content)),
                 (''Content-Type'', content_type v),
                 (''Accept-Ranges'', ''bytes'')] content"
    unfolding sv fst_conv by (rule send_file_whole)
  show ?thesis
    using closed len nth open_ended whole by blast
qed


theorem range_span_served_witness:
  "resolve_identity sample_senv (sample_req ''token-admin'' 1 None)
     = Inr \<lparr>p_id = 3, p_role = ADMIN, p_tenantId = 1\<rparr>
   \<and> find_throws sample_senv = None
   \<and> findOne sample_db 1 \<lparr>p_id = 3, p_role = ADMIN, p_tenantId = 1\<rparr> = Some sample_video
   \<and> processingStatus sample_video = COMPLETED
   \<and> sample_files (filePath sample_video) = Some (replicate 1000 (CHR ''a''))
   \<and> (0 :: nat) \<le> 99 \<and> 99 < length (replicate 1000 (CHR ''a''))
   \<and> fst (streamVideo sample_senv sample_db sample_files
             (sample_req ''token-admin'' 1 (Some ''bytes=0-99'')))
       = Stream 206
           [(''Content-Range'', ''bytes 0-99/1000''), (''Accept-Ranges'', ''bytes''),
            (''Content-Length'', ''100''), (''Content-Type'', ''video/mp4''),
            (''Cache-Control'', ''no-cache'')]
           (replicate 100 (CHR ''a''))
   \<and> fst (streamVideo sample_senv sample_db sample_files
             (sample_req ''token-admin'' 1 (Some ''bytes=0-'')))
       = Stream 206
           [(''Content-Range'', ''bytes 0-999/1000''), (''Accept-Ranges'', ''bytes''),
            (''Content-Length'', ''1000''), (''Content-Type'', ''video/mp4''),
            (''Cache-Control'', ''no-cache'')]
           (replicate 1000 (CHR ''a''))
   \<and> fst (streamVideo sample_senv sample_db sample_files (sample_req ''token-admin'' 1 None))
       = Stream 200
           [(''Content-Length'', ''1000''), (''Content-Type'', ''video/mp4''),
            (''Accept-Ranges'', ''bytes'')]
           (replicate 1000 (CHR ''a''))"
proof -
  let ?u = "\<lparr>p_id = 3, p_role = ADMIN, p_tenantId = 1\<rparr>"
  let ?req = "sample_req ''token-admin'' 1 None"
  let ?content = "replicate 1000 (CHR ''a'')"
  have h1: "resolve_identity sample_senv ?req = Inr ?u"
    by (simp add: sample_simps)
  have h2: "find_throws sample_senv = None"
    by (simp add: sample_senv_def)
  have h3: "findOne sample_db 1 ?u = Some sample_video"
    by (simp add: sample_simps)
  have h3r: "findOne sample_db (r_id ?req) ?u = Some sample_video"
    using h3 by (simp add: sample_req_def)
  have h4: "processingStatus sample_video = COMPLETED"
    by (simp add: sample_video_def)
  have h5: "sample_files (filePath sample_video) = Some ?content"
    by (simp add: sample_files_def sample_video_def)
  have h6: "(0 :: nat) \<le> 99 \<and> 99 < length ?content"
    by simp
  have rq: "?req\<lparr>r_range := x\<rparr> = sample_req ''token-admin'' 1 x" for x
    by (simp add: sample_req_def)
  have ct: "content_type sample_video = ''video/mp4''"
    by (simp add: content_type_def sample_video_def)
  note main = range_span_served
         [where fs = sample_files and s = 0 and e = 99, OF h1 h2 h3r h4 h5]
  have a: "fst (streamVideo sample_senv sample_db sample_files
             (sample_req ''token-admin'' 1 (Some ''bytes=0-99'')))
       = Stream 206
           [(''Content-Range'', ''bytes 0-99/1000''), (''Accept-Ranges'', ''bytes''),
            (''Content-Length'', ''100''), (''Content-Type'', ''video/mp4''),
            (''Cache-Control'', ''no-cache'')]
           (replicate 100 (CHR ''a''))"
    using main [unfolded rq ct] by (simp add: dec_examples)
  have b: "fst (streamVideo sample_senv sample_db sample_files
             (sample_req ''token-admin'' 1 (Some ''bytes=0-'')))
       = Stream 206
           [(''Content-Range'', ''bytes 0-999/1000''), (''Accept-Ranges'', ''bytes''),
            (''Content-Length'', ''1000''), (''Content-Type'', ''video/mp4''),
            (''Cache-Control'', ''no-cache'')]
           (replicate 1000 (CHR ''a''))"
    using main [unfolded rq ct] by (simp add: dec_examples)
  have c: "fst (streamVideo sample_senv sample_db sample_files (sample_req ''token-admin'' 1 None))
       = Stream 200
           [(''Content-Length'', ''1000''), (''Content-Type'', ''video/mp4''),
            (''Accept-Ranges'', ''bytes'')]
           (replicate 1000 (CHR ''a''))"
    using main [unfolded rq ct] by (simp add: dec_examples)
  show ?thesis
    using h1 h2 h3 h4 h5 h6 a b c by blast
qed

text \<open>
  C5: for every fetch by a requester who may see the artifact, whatever the role: a FLAGGED
  artifact is answered with 403 and a body that carries the status and its detail
  (\<open>processingError\<close>); a PENDING or PROCESSING artifact with 403 "Video is still
  processing"; and whenever any fetch at all is answered with a streamed body, the
  artifact is COMPLETED.
\<close>

theorem status_gate:
  "(resolve_identity env req = Inr u \<and> find_throws env = None
      \<and> findOne d (r_id req) u = Some v \<longrightarrow>
        (processingStatus v = FLAGGED \<longrightarrow>
           fst (streamVideo env d fs req)
             = Json 403 (MsgFlagged ''This video has been flagged and cannot be streamed''
                           FLAGGED (processingError v)))
      \<and> (processingStatus v = PENDING \<or> processingStatus v = PROCESSING \<longrightarrow>
           fst (streamVideo env d fs req)
             = Json 403 (MsgStatus ''Video is still processing'' (processingStatus v))))
   \<and> (fst (streamVideo env d fs req) = Stream c h b \<longrightarrow>
        (\<exists>w. d (r_id req) = Some w \<and> processingStatus w = COMPLETED))"
proof -
  have gate: "fst (streamVideo env d fs req)
                = Json 403 (MsgFlagged ''This video has been flagged and cannot be streamed''
                              FLAGGED (processingError v))"
    if "resolve_identity env req = Inr u" "find_throws env = None"
       "findOne d (r_id req) u = Some v" "processingStatus v = FLAGGED"
    using that by (simp add: streamVideo_def)
  have wait: "fst (streamVideo env d fs req)
                = Json 403 (MsgStatus ''Video is still processing'' (processingStatus v))"
    if "resolve_identity env req = Inr u" "find_throws env = None"
       "findOne d (r_id req) u = Some v"
       "processingStatus v = PENDING \<or> processingStatus v = PROCESSING"
    using that by (auto simp: streamVideo_def)
  have only: "\<exists>w. d (r_id req) = Some w \<and> processingStatus w = COMPLETED"
    if "fst (streamVideo env d fs req) = Stream c h b"
    using that
    by (auto simp: streamVideo_def findOne_def
             dest: resolve_identity_rejects
             split: sum.splits option.splits if_splits)
  show ?thesis
    using gate wait only by blast
qed

theorem status_gate_witness:
  "resolve_identity sample_senv (sample_req ''token-viewer'' 2 None)
     = Inr \<lparr>p_id = 9, p_role = VIEWER, p_tenantId = 1\<rparr>
   \<and> find_throws sample_senv = None
   \<and> findOne sample_db 2 \<lparr>p_id = 3, p_role = ADMIN, p_tenantId = 1\<rparr>
       = Some (sample_video\<lparr>processingStatus := FLAGGED,
                 processingError := Some ''AI analysis detected potential content issues''\<rparr>)
   \<and> fst (streamVideo sample_senv sample_db sample_files (sample_req ''token-admin'' 2 None))
       = Json 403 (MsgFlagged ''This video has been flagged and cannot be streamed'' FLAGGED
                     (Some ''AI analysis detected potential content issues''))
   \<and> fst (streamVideo sample_senv sample_db sample_files (sample_req ''token-admin'' 3 None))
       = Json 403 (MsgStatus ''Video is still processing'' PENDING)
   \<and> fst (streamVideo sample_senv sample_db sample_files (sample_req ''token-admin'' 4 None))
       = Json 403 (MsgStatus ''Video is still processing'' PROCESSING)
   \<and> status_code (fst (streamVideo sample_senv sample_db sample_files
                          (sample_req ''token-admin'' 1 None))) = 200
   \<and> (\<exists>w. sample_db 1 = Some w \<and> processingStatus w = COMPLETED)"
proof -
  let ?u = "\<lparr>p_id = 3, p_role = ADMIN, p_tenantId = 1\<rparr>"
  let ?flagged = "sample_video\<lparr>processingStatus := FLAGGED,
                    processingError := Some ''AI analysis detected potential content issues''\<rparr>"
  have h0: "resolve_identity sample_senv (sample_req ''token-viewer'' 2 None)
              = Inr \<lparr>p_id = 9, p_role = VIEWER, p_tenantId = 1\<rparr>"
    by (simp add: sample_simps)
  have h1: "resolve_identity sample_senv (sample_req ''token-admin'' i None) = Inr ?u" for i
    by (simp add: sample_simps)
  have h2: "find_throws sample_senv = None"
    by (simp add: sample_senv_def)
  have f2: "findOne sample_db 2 ?u = Some ?flagged"
    by (simp add: sample_simps)
  have f3: "findOne sample_db 3 ?u = Some (sample_video\<lparr>processingStatus := PENDING\<rparr>)"
    by (simp add: sample_simps)
  have f4: "findOne sample_db 4 ?u = Some (sample_video\<lparr>processingStatus := PROCESSING\<rparr>)"
    by (simp add: sample_simps)
  have id: "r_id (sample_req tok i None) = i" for tok i
    by (simp add: sample_req_def)
  have a: "fst (streamVideo sample_senv sample_db sample_files (sample_req ''token-admin'' 2 None))
       = Json 403 (MsgFlagged ''This video has been flagged and cannot be streamed'' FLAGGED
                     (Some ''AI analysis detected potential content issues''))"
    using status_gate [where env = sample_senv and req = "sample_req ''token-admin'' 2 None"
                         and u = ?u and d = sample_db and v = ?flagged and fs = sample_files]
          h1 h2 f2
    by (simp add: id)
  have b: "fst (streamVideo sample_senv sample_db sample_files (sample_req ''token-admin'' 3 None))
       = Json 403 (MsgStatus ''Video is still processing'' PENDING)"
    using status_gate [where env = sample_senv and req = "sample_req ''token-admin'' 3 None"
                         and u = ?u and d = sample_db
                         and v = "sample_video\<lparr>processingStatus := PENDING\<rparr>"
                         and fs = sample_files]
          h1 h2 f3
    by (simp add: id)
  have c: "fst (streamVideo sample_senv sample_db sample_files (sample_req ''token-admin'' 4 None))
       = Json 403 (MsgStatus ''Video is still processing'' PROCESSING)"
    using status_gate [where env = sample_senv and req = "sample_req ''token-admin'' 4 None"
                         and u = ?u and d = sample_db
                         and v = "sample_video\<lparr>processingStatus := PROCESSING\<rparr>"
                         and fs = sample_files]
          h1 h2 f4
    by (simp add: id)
  have s: "fst (streamVideo sample_senv sample_db sample_files (sample_req ''token-admin'' 1 None))
       = Stream 200
           [(''Content-Length'', ''1000''), (''Content-Type'', ''video/mp4''),
            (''Accept-Ranges'', ''bytes'')]
           (replicate 1000 (CHR ''a''))"
    by (simp add: sample_simps send_file_def show_num_nat [of 1000, simplified]
          dec_examples content_type_def)
  have e: "\<exists>w. sample_db 1 = Some w \<and> processingStatus w = COMPLETED"
    using status_gate [where env = sample_senv and req = "sample_req ''token-admin'' 1 None"
                         and d = sample_db and fs = sample_files, THEN conjunct2, rule_format, OF s]
    by (simp add: id)
  have sc: "status_code (fst (streamVideo sample_senv sample_db sample_files
                                (sample_req ''token-admin'' 1 None))) = 200"
    by (simp only: s status_code.simps)
  show ?thesis
    using h0 h2 f2 a b c sc e by blast
qed

text \<open>
  C6: for every requester, the fetch of an artifact of another tenant, and the fetch by a
  VIEWER of a private artifact of somebody else, are answered exactly as the fetch of an
  id that does not exist (the same response, the collection untouched): 404 "Video not
  found or access denied" when the query itself does not fail.
\<close>

theorem no_existence_leak:
  assumes "resolve_identity env req = Inr u"
    and "d (r_id req) = Some v"
    and "tenantId v \<noteq> p_tenantId u
         \<or> (p_role u = VIEWER \<and> \<not> isPublic v \<and> uploadedBy v \<noteq> p_id u)"
    and "d j = None"
  shows "streamVideo env d fs req = streamVideo env d fs (req\<lparr>r_id := j\<rparr>)
       \<and> (find_throws env = None \<longrightarrow>
            streamVideo env d fs req
              = (Json 404 (Msg ''Video not found or access denied''), d))"
proof -
  have hidden: "findOne d (r_id req) u = None"
    using assms(2,3) by (auto simp: findOne_def)
  have absent: "findOne d j u = None"
    using assms(4) by (simp add: findOne_def)
  have "resolve_identity env (req\<lparr>r_id := j\<rparr>) = Inr u"
    using assms(1) by simp
  then show ?thesis
    using assms(1) hidden absent by (simp add: streamVideo_def split: option.split)
qed


theorem no_existence_leak_witness:
  "resolve_identity sample_senv (sample_req ''token-other'' 1 None)
     = Inr \<lparr>p_id = 4, p_role = ADMIN, p_tenantId = 2\<rparr>
   \<and> resolve_identity sample_senv (sample_req ''token-viewer'' 1 None)
     = Inr \<lparr>p_id = 9, p_role = VIEWER, p_tenantId = 1\<rparr>
   \<and> sample_db 1 = Some sample_video
   \<and> tenantId sample_video = 1 \<and> \<not> isPublic sample_video \<and> uploadedBy sample_video = 7
   \<and> sample_db 99 = None
   \<and> streamVideo sample_senv sample_db sample_files (sample_req ''token-other'' 1 None)
       = streamVideo sample_senv sample_db sample_files (sample_req ''token-other'' 99 None)
   \<and> fst (streamVideo sample_senv sample_db sample_files (sample_req ''token-other'' 1 None))
       = Json 404 (Msg ''Video not found or access denied'')
   \<and> streamVideo sample_senv sample_db sample_files (sample_req ''token-viewer'' 1 None)
       = streamVideo sample_senv sample_db sample_files (sample_req ''token-viewer'' 99 None)
   \<and> fst (streamVideo sample_senv sample_db sample_files (sample_req ''token-viewer'' 1 None))
       = Json 404 (Msg ''Video not found or access denied'')"
proof -
  let ?o = "\<lparr>p_id = 4, p_role = ADMIN, p_tenantId = 2\<rparr>"
  let ?w = "\<lparr>p_id = 9, p_role = VIEWER, p_tenantId = 1\<rparr>"
  have o: "resolve_identity sample_senv (sample_req ''token-other'' 1 None) = Inr ?o"
    by (simp add: sample_simps)
  have w: "resolve_identity sample_senv (sample_req ''token-viewer'' 1 None) = Inr ?w"
    by (simp add: sample_simps)
  have v: "sample_db 1 = Some sample_video"
    by (simp add: sample_db_def)
  have vr: "sample_db (r_id (sample_req tok 1 None)) = Some sample_video" for tok
    by (simp add: sample_db_def sample_req_def)
  have p: "tenantId sample_video = 1 \<and> \<not> isPublic sample_video \<and> uploadedBy sample_video = 7"
    by (simp add: sample_video_def)
  have n: "sample_db 99 = None"
    by (simp add: sample_db_def)
  have h2: "find_throws sample_senv = None"
    by (simp add: sample_senv_def)
  have rq: "(sample_req tok 1 None)\<lparr>r_id := 99\<rparr> = sample_req tok 99 None" for tok
    by (simp add: sample_req_def)
  have to: "tenantId sample_video \<noteq> p_tenantId ?o
            \<or> (p_role ?o = VIEWER \<and> \<not> isPublic sample_video
                \<and> uploadedBy sample_video \<noteq> p_id ?o)"
    by (simp add: sample_video_def)
  have tw: "tenantId sample_video \<noteq> p_tenantId ?w
            \<or> (p_role ?w = VIEWER \<and> \<not> isPublic sample_video
                \<and> uploadedBy sample_video \<noteq> p_id ?w)"
    by (simp add: sample_video_def)
  have a: "streamVideo sample_senv sample_db sample_files (sample_req ''token-other'' 1 None)
             = streamVideo sample_senv sample_db sample_files (sample_req ''token-other'' 99 None)
           \<and> fst (streamVideo sample_senv sample_db sample_files
                     (sample_req ''token-other'' 1 None))
             = Json 404 (Msg ''Video not found or access denied'')"
    using no_existence_leak [where fs = sample_files and j = 99, OF o vr to n, unfolded rq] h2
    by (metis fst_conv)
  have b: "streamVideo sample_senv sample_db sample_files (sample_req ''token-viewer'' 1 None)
             = streamVideo sample_senv sample_db sample_files (sample_req ''token-viewer'' 99 None)
           \<and> fst (streamVideo sample_senv sample_db sample_files
                     (sample_req ''token-viewer'' 1 None))
             = Json 404 (Msg ''Video not found or access denied'')"
    using no_existence_leak [where fs = sample_files and j = 99, OF w vr tw n, unfolded rq] h2
    by (metis fst_conv)
  show ?thesis
    using o w v p n a b by blast
qed


section \<open>Ingestion pipeline\<close>

lemma status_upd_eq [simp]:
  "(v\<lparr>processingStatus := s\<rparr> = v) = (processingStatus v = s)"
  "(v = v\<lparr>processingStatus := s\<rparr>) = (processingStatus v = s)"
  by (cases v; auto)+

lemma video_neq: "processingStatus a \<noteq> processingStatus b \<Longrightarrow> (a = b) = False"
  by auto

lemma save_ok:
  "save None d i v = Inr (if d i = Some v then [] else [Saved i v], d(i \<mapsto> v))"
  by (auto simp: save_def)

lemma save_fails: "save (Some m) d i v = Inl m"
  by (simp add: save_def)

lemma finalized_status:
  "processingStatus (video_finalized v sc) = COMPLETED
   \<or> processingStatus (video_finalized v sc) = FLAGGED"
  by (simp add: video_finalized_def)

lemma finalized_differs: "video_started v \<noteq> video_finalized (video_extracted (video_started v) md) sc"
  using finalized_status [of "video_extracted (video_started v) md" sc]
  by (auto simp: video_started_def dest: arg_cong [where f = processingStatus])

lemmas stage_defs = video_started_def video_extracted_def video_finalized_def first_write_def
  events_start_def events_scan_def events_end_def

lemma try_find_throws:
  "find1_throws env = Some m \<Longrightarrow> processVideo_try env d fs i t = (Inl m, [], d)"
  by (simp add: processVideo_try_def)

lemma try_not_found:
  "find1_throws env = None \<Longrightarrow> d i = None
     \<Longrightarrow> processVideo_try env d fs i t = (Inl ''Video not found'', [], d)"
  by (simp add: processVideo_try_def)

lemma try_save1_throws:
  "find1_throws env = None \<Longrightarrow> d i = Some v \<Longrightarrow> save1_throws env = Some m
     \<Longrightarrow> processVideo_try env d fs i t = (Inl m, [], d)"
  by (simp add: processVideo_try_def save_def)

lemma try_extract_fails:
  "find1_throws env = None \<Longrightarrow> d i = Some v \<Longrightarrow> save1_throws env = None
     \<Longrightarrow> extractMetadata fs (ffprobe env) (filePath v) = Inl m
     \<Longrightarrow> processVideo_try env d fs i t
           = (Inl (''Metadata extraction failed: '' @ m),
              first_write i v @ events_start (io env) t i,
              d(i \<mapsto> video_started v))"
  by (simp add: processVideo_try_def save_ok Let_def first_write_def events_start_def
        video_started_def)

lemma try_has_nan:
  "find1_throws env = None \<Longrightarrow> d i = Some v \<Longrightarrow> save1_throws env = None
     \<Longrightarrow> extractMetadata fs (ffprobe env) (filePath v) = Inr md \<Longrightarrow> has_nan md
     \<Longrightarrow> processVideo_try env d fs i t
           = (Inl (cast_message env), trace_before_final env t i v md, d(i \<mapsto> video_started v))"
  by (simp add: processVideo_try_def save_ok save_fails Let_def stage_defs
        trace_before_final_def)

lemma try_save2_throws:
  "find1_throws env = None \<Longrightarrow> d i = Some v \<Longrightarrow> save1_throws env = None
     \<Longrightarrow> extractMetadata fs (ffprobe env) (filePath v) = Inr md \<Longrightarrow> \<not> has_nan md
     \<Longrightarrow> save2_throws env = Some m
     \<Longrightarrow> processVideo_try env d fs i t
           = (Inl m, trace_before_final env t i v md, d(i \<mapsto> video_started v))"
  by (simp add: processVideo_try_def save_ok save_fails Let_def stage_defs
        trace_before_final_def)

lemma try_completes:
  "find1_throws env = None \<Longrightarrow> d i = Some v \<Longrightarrow> save1_throws env = None
     \<Longrightarrow> extractMetadata fs (ffprobe env) (filePath v) = Inr md \<Longrightarrow> \<not> has_nan md
     \<Longrightarrow> save2_throws env = None
     \<Longrightarrow> processVideo_try env d fs i t
           = (Inr (),
              trace_before_final env t i v md @ [Saved i (final_video env v md)]
                @ events_end (io env) t i (final_video env v md),
              d(i \<mapsto> final_video env v md))"
  by (simp add: processVideo_try_def save_ok Let_def stage_defs video_neq
        trace_before_final_def final_video_def)

text \<open>The seven ways through the \<open>try\<close> block.\<close>

lemma try_cases:
  obtains
    (lookup_throws) m where "find1_throws env = Some m"
      "processVideo_try env d fs i t = (Inl m, [], d)"
  | (not_found) "find1_throws env = None" "d i = None"
      "processVideo_try env d fs i t = (Inl ''Video not found'', [], d)"
  | (save1_throws) v m where "find1_throws env = None" "d i = Some v"
      "save1_throws env = Some m"
      "processVideo_try env d fs i t = (Inl m, [], d)"
  | (extract_fails) v m where "find1_throws env = None" "d i = Some v"
      "save1_throws env = None"
      "extractMetadata fs (ffprobe env) (filePath v) = Inl m"
      "processVideo_try env d fs i t
         = (Inl (''Metadata extraction failed: '' @ m),
            first_write i v @ events_start (io env) t i, d(i \<mapsto> video_started v))"
  | (invalid) v md where "find1_throws env = None" "d i = Some v"
      "save1_throws env = None"
      "extractMetadata fs (ffprobe env) (filePath v) = Inr md" "has_nan md"
      "processVideo_try env d fs i t
         = (Inl (cast_message env), trace_before_final env t i v md, d(i \<mapsto> video_started v))"
  | (save2_throws) v md m where "find1_throws env = None" "d i = Some v"
      "save1_throws env = None"
      "extractMetadata fs (ffprobe env) (filePath v) = Inr md" "\<not> has_nan md"
      "save2_throws env = Some m"
      "processVideo_try env d fs i t
         = (Inl m, trace_before_final env t i v md, d(i \<mapsto> video_started v))"
  | (completes) v md where "find1_throws env = None" "d i = Some v"
      "save1_throws env = None"
      "extractMetadata fs (ffprobe env) (filePath v) = Inr md" "\<not> has_nan md"
      "save2_throws env = None"
      "processVideo_try env d fs i t
         = (Inr (),
            trace_before_final env t i v md @ [Saved i (final_video env v md)]
              @ events_end (io env) t i (final_video env v md),
            d(i \<mapsto> final_video env v md))"
proof (cases "find1_throws env")
  case (Some m)
  then show ?thesis
    using lookup_throws try_find_throws by blast
next
  case f: None
  show ?thesis
  proof (cases "d i")
    case None
    then show ?thesis
      using f not_found try_not_found by blast
  next
    case v: (Some v)
    show ?thesis
    proof (cases "save1_throws env")
      case (Some m)
      then show ?thesis
        using f v save1_throws try_save1_throws by blast
    next
      case s1: None
      show ?thesis
      proof (cases "extractMetadata fs (ffprobe env) (filePath v)")
        case (Inl m)
        then show ?thesis
          using f v s1 extract_fails try_extract_fails by blast
      next
        case x: (Inr md)
        show ?thesis
        proof (cases "has_nan md")
          case True
          then show ?thesis
            using f v s1 x invalid try_has_nan by blast
        next
          case n: False
          show ?thesis
          proof (cases "save2_throws env")
            case (Some m)
            then show ?thesis
              using f v s1 x n save2_throws try_save2_throws by blast
          next
            case None
            then show ?thesis
              using f v s1 x n completes try_completes by blast
          qed
        qed
      qed
    qed
  qed
qed

lemma flagged_upd_eq:
  "(w = video_flagged w m) = (processingStatus w = FLAGGED \<and> processingError w = Some m)"
  unfolding video_flagged_def by (cases w) auto

text \<open>The two ways through the \<open>catch\<close> block.\<close>

lemma catch_cases:
  obtains
    (unsaved) "find2_throws env \<noteq> None \<or> d i = None \<or> save3_throws env \<noteq> None"
      "processVideo_catch env d i t m = (emitError (io env) t i m, d)"
  | (saved) w where "find2_throws env = None" "d i = Some w" "save3_throws env = None"
      "processVideo_catch env d i t m
         = ((if processingStatus w = FLAGGED \<and> processingError w = Some m then []
             else [Saved i (video_flagged w m)]) @ emitError (io env) t i m,
            d(i \<mapsto> video_flagged w m))"
proof (cases "find2_throws env = None \<and> d i \<noteq> None \<and> save3_throws env = None")
  case False
  then have "processVideo_catch env d i t m = (emitError (io env) t i m, d)"
    by (auto simp: processVideo_catch_def save_fails Let_def split: option.splits)
  moreover have "find2_throws env \<noteq> None \<or> d i = None \<or> save3_throws env \<noteq> None"
    using False by auto
  ultimately show ?thesis
    by (rule unsaved [rotated])
next
  case True
  then obtain w where w: "d i = Some w"
    by blast
  have "processVideo_catch env d i t m
         = ((if processingStatus w = FLAGGED \<and> processingError w = Some m then []
             else [Saved i (video_flagged w m)]) @ emitError (io env) t i m,
            d(i \<mapsto> video_flagged w m))"
    using True w flagged_upd_eq [of w m]
    by (simp add: processVideo_catch_def save_ok Let_def video_flagged_def)
  with True w show ?thesis
    using saved by blast
qed

lemma processVideo_failed:
  "processVideo_try env d fs i t = (Inl m, tr, d')
     \<Longrightarrow> processVideo env d fs i t
           = (Inr (), tr @ fst (processVideo_catch env d' i t m),
              snd (processVideo_catch env d' i t m))"
  by (simp add: processVideo_def split: prod.splits)

lemma processVideo_succeeded:
  "processVideo_try env d fs i t = (Inr (), tr, d')
     \<Longrightarrow> processVideo env d fs i t = (Inr (), tr, d')"
  by (simp add: processVideo_def)


lemma final_video_status:
  "processingStatus (final_video env v md) = COMPLETED
   \<or> processingStatus (final_video env v md) = FLAGGED"
  unfolding final_video_def by (rule finalized_status)

lemma saved_statuses_append [simp]:
  "saved_statuses i (xs @ ys) = saved_statuses i xs @ saved_statuses i ys"
  by (induction i xs rule: saved_statuses.induct) simp_all

lemma saved_statuses_emit [simp]:
  "saved_statuses i (emitProgress b t j p st dt) = []"
  "saved_statuses i (emitCompletion b t j s sn) = []"
  "saved_statuses i (emitError b t j m) = []"
  by (simp_all add: emitProgress_def emitCompletion_def emitError_def)

lemma saved_statuses_stages [simp]:
  "saved_statuses i (events_start b t j) = []"
  "saved_statuses i (events_scan b t j v md sc) = []"
  "saved_statuses i (events_end b t j v) = []"
  "saved_statuses i (first_write i v)
     = (if processingStatus v = PROCESSING then [] else [PROCESSING])"
  "saved_statuses i (trace_before_final env t i v md)
     = (if processingStatus v = PROCESSING then [] else [PROCESSING])"
  by (simp_all add: events_start_def events_scan_def events_end_def first_write_def
        trace_before_final_def video_started_def)

lemma replay_append [simp]: "replay d (xs @ ys) = replay (replay d xs) ys"
proof (induction xs arbitrary: d)
  case Nil
  show ?case by simp
next
  case (Cons e es)
  show ?case by (cases e) (simp_all only: append_Cons replay.simps Cons.IH)
qed

lemma replay_emit [simp]:
  "replay d (emitProgress b t j p st dt) = d"
  "replay d (emitCompletion b t j s sn) = d"
  "replay d (emitError b t j m) = d"
  by (simp_all add: emitProgress_def emitCompletion_def emitError_def)

lemma replay_stages [simp]:
  "replay d (events_start b t j) = d"
  "replay d (events_scan b t j v md sc) = d"
  "replay d (events_end b t j v) = d"
  by (simp_all add: events_start_def events_scan_def events_end_def)

lemma replay_first_write:
  "d i = Some v \<Longrightarrow> replay d (first_write i v) = d(i \<mapsto> video_started v)"
  by (auto simp: first_write_def video_started_def)

lemma replay_before_final:
  "d i = Some v \<Longrightarrow> replay d (trace_before_final env t i v md) = d(i \<mapsto> video_started v)"
  by (simp add: trace_before_final_def replay_first_write)

lemma try_replay:
  "snd (snd (processVideo_try env d fs i t)) = replay d (fst (snd (processVideo_try env d fs i t)))"
  by (cases rule: try_cases [of env d fs i t])
     (simp_all add: replay_first_write replay_before_final)

lemma catch_replay:
  "snd (processVideo_catch env d i t m) = replay d (fst (processVideo_catch env d i t m))"
  by (cases rule: catch_cases [of env d i t m]) (auto simp: flagged_upd_eq [symmetric])

lemma processVideo_replay:
  "snd (snd (processVideo env d fs i t)) = replay d (fst (snd (processVideo env d fs i t)))"
proof -
  obtain r tr d' where body: "processVideo_try env d fs i t = (r, tr, d')"
    by (cases "processVideo_try env d fs i t") auto
  have d': "d' = replay d tr"
    using try_replay [of env d fs i t] body by simp
  show ?thesis
  proof (cases r)
    case (Inl m)
    then show ?thesis
      using processVideo_failed [of env d fs i t m tr d'] body d'
            catch_replay [of env d' i t m]
      by simp
  next
    case (Inr u)
    then show ?thesis
      using processVideo_succeeded [of env d fs i t tr d'] body d' by simp
  qed
qed

lemma status_sequence_try:
  assumes "d i = Some v" and "processingStatus v = PENDING"
  shows "(\<exists>m tr. processVideo_try env d fs i t = (Inl m, tr, d) \<and> saved_statuses i tr = []
            \<and> (find1_throws env \<noteq> None \<or> save1_throws env \<noteq> None))
       \<or> (\<exists>m tr d' w. processVideo_try env d fs i t = (Inl m, tr, d')
            \<and> saved_statuses i tr = [PROCESSING] \<and> d' i = Some w
            \<and> processingStatus w = PROCESSING)
       \<or> (\<exists>tr d'. processVideo_try env d fs i t = (Inr (), tr, d')
            \<and> (saved_statuses i tr = [PROCESSING, COMPLETED]
                \<or> saved_statuses i tr = [PROCESSING, FLAGGED]))"
proof (cases rule: try_cases [of env d fs i t])
  case (completes w md)
  then show ?thesis
    using assms final_video_status [of env v md] by auto
qed (use assms in \<open>auto simp: video_started_def\<close>)

lemma status_sequence_catch:
  assumes "d i = Some w" and "processingStatus w \<noteq> FLAGGED"
  shows "(\<exists>tr. processVideo_catch env d i t m = (tr, d) \<and> saved_statuses i tr = []
            \<and> (find2_throws env \<noteq> None \<or> save3_throws env \<noteq> None))
       \<or> (\<exists>tr d'. processVideo_catch env d i t m = (tr, d')
            \<and> saved_statuses i tr = [FLAGGED])"
  by (cases rule: catch_cases [of env d i t m])
     (use assms in \<open>auto simp: video_flagged_def\<close>)

lemmas pipe_simps = processVideo_def processVideo_try_def processVideo_catch_def startProcessing_def
  emitProgress_def emitCompletion_def emitError_def extractMetadata_def
  simulateAISensitivityScan_def SENSITIVITY_KEYWORDS_def keyword_hit_def toLowerCase_def lower_char_def
  reason_or_default_def char_of_eq_iff save_def has_nan_def number_or_def
  sample_penv_def pipeline_db_def uploaded_video_def sample_probe_def sample_files_def


lemma status_sequence_run:
  assumes "d i = Some v" and "processingStatus v = PENDING"
  shows "saved_statuses i (fst (snd (processVideo env d fs i t)))
           \<in> {[], [FLAGGED], [PROCESSING], [PROCESSING, COMPLETED], [PROCESSING, FLAGGED]}
      \<and> (find1_throws env = None \<and> save1_throws env = None \<and> save2_throws env = None
            \<and> find2_throws env = None \<and> save3_throws env = None
          \<longrightarrow> saved_statuses i (fst (snd (processVideo env d fs i t)))
                \<in> {[PROCESSING, COMPLETED], [PROCESSING, FLAGGED]})"
proof -
  consider
    (early) m tr where "processVideo_try env d fs i t = (Inl m, tr, d)"
      "saved_statuses i tr = []" "find1_throws env \<noteq> None \<or> save1_throws env \<noteq> None"
  | (late) m tr d' w where "processVideo_try env d fs i t = (Inl m, tr, d')"
      "saved_statuses i tr = [PROCESSING]" "d' i = Some w" "processingStatus w = PROCESSING"
  | (finished) tr d' where "processVideo_try env d fs i t = (Inr (), tr, d')"
      "saved_statuses i tr = [PROCESSING, COMPLETED] \<or> saved_statuses i tr = [PROCESSING, FLAGGED]"
    using status_sequence_try [where d = d and i = i and env = env and fs = fs and t = t, OF assms]
    by blast
  then show ?thesis
  proof cases
    case early
    have "processingStatus v \<noteq> FLAGGED"
      using assms(2) by simp
    from status_sequence_catch [where d = d and i = i, OF assms(1) this, of env t m] early
    show ?thesis
      by (auto simp: processVideo_def)
  next
    case late
    have "processingStatus w \<noteq> FLAGGED"
      using late(4) by simp
    from status_sequence_catch [where d = d' and i = i, OF late(3) this, of env t m] late
    show ?thesis
      by (auto simp: processVideo_def)
  next
    case finished
    then show ?thesis
      by (auto simp: processVideo_def)
  qed
qed

text \<open>
  C1, as stated, fails: when the save of PROCESSING throws (here with the message
  "connection lost") and the store answers again in the \<open>catch\<close> block, the run persists
  FLAGGED directly on the PENDING artifact, so the sequence is PENDING, FLAGGED and
  PROCESSING is skipped on the error path.
\<close>

theorem status_sequence_counterexample:
  "pipeline_db 5 = Some uploaded_video \<and> processingStatus uploaded_video = PENDING
   \<and> PENDING # saved_statuses 5
        (fst (snd (processVideo (sample_penv\<lparr>save1_throws := Some ''connection lost''\<rparr>)
                     pipeline_db sample_files 5 1)))
     = [PENDING, FLAGGED]"
  by (simp add: pipe_simps Let_def)


text \<open>
  C1, amended: for every run on a PENDING artifact, the sequence of persisted statuses
  moves forward only and is one of PENDING; PENDING, FLAGGED; PENDING, PROCESSING;
  PENDING, PROCESSING, COMPLETED; PENDING, PROCESSING, FLAGGED. It is exactly
  PENDING, PROCESSING, COMPLETED or PENDING, PROCESSING, FLAGGED whenever no lookup and no
  save of the run throws, on the error path of a failed metadata extraction too. The
  collection the run leaves is the one its saves produce.
\<close>

theorem status_sequence_forward:
  assumes "d i = Some v" and "processingStatus v = PENDING"
  shows "processingStatus v # saved_statuses i (fst (snd (processVideo env d fs i t)))
           \<in> {[PENDING], [PENDING, FLAGGED], [PENDING, PROCESSING],
               [PENDING, PROCESSING, COMPLETED], [PENDING, PROCESSING, FLAGGED]}
       \<and> sorted_wrt (\<lambda>a b. rank a < rank b)
           (processingStatus v # saved_statuses i (fst (snd (processVideo env d fs i t))))
       \<and> (find1_throws env = None \<and> save1_throws env = None \<and> save2_throws env = None
            \<and> find2_throws env = None \<and> save3_throws env = None
          \<longrightarrow> processingStatus v # saved_statuses i (fst (snd (processVideo env d fs i t)))
                \<in> {[PENDING, PROCESSING, COMPLETED], [PENDING, PROCESSING, FLAGGED]})
       \<and> snd (snd (processVideo env d fs i t))
           = replay d (fst (snd (processVideo env d fs i t)))"
proof -
  let ?run = "saved_statuses i (fst (snd (processVideo env d fs i t)))"
  have all: "?run \<in> {[], [FLAGGED], [PROCESSING], [PROCESSING, COMPLETED], [PROCESSING, FLAGGED]}"
    using status_sequence_run [where d = d and i = i and env = env and fs = fs and t = t, OF assms]
    by blast
  have a: "processingStatus v # ?run
             \<in> {[PENDING], [PENDING, FLAGGED], [PENDING, PROCESSING],
                 [PENDING, PROCESSING, COMPLETED], [PENDING, PROCESSING, FLAGGED]}"
    using all assms(2) by auto
  have b: "sorted_wrt (\<lambda>a b. rank a < rank b) (processingStatus v # ?run)"
    using all assms(2) by auto
  have c: "processingStatus v # ?run
             \<in> {[PENDING, PROCESSING, COMPLETED], [PENDING, PROCESSING, FLAGGED]}"
    if "find1_throws env = None \<and> save1_throws env = None \<and> save2_throws env = None
          \<and> find2_throws env = None \<and> save3_throws env = None"
    using status_sequence_run [where d = d and i = i and env = env and fs = fs and t = t, OF assms]
          that assms(2)
    by auto
  show ?thesis
    using a b c processVideo_replay [of env d fs i t] by blast
qed

theorem status_sequence_forward_witness:
  "pipeline_db 5 = Some uploaded_video \<and> processingStatus uploaded_video = PENDING
   \<and> find1_throws sample_penv = None \<and> save1_throws sample_penv = None
   \<and> save2_throws sample_penv = None \<and> find2_throws sample_penv = None
   \<and> save3_throws sample_penv = None
   \<and> PENDING # saved_statuses 5 (fst (snd (processVideo sample_penv pipeline_db sample_files 5 1)))
       \<in> {[PENDING, PROCESSING, COMPLETED], [PENDING, PROCESSING, FLAGGED]}"
proof -
  have h1: "pipeline_db 5 = Some uploaded_video"
    by (simp add: pipeline_db_def)
  have h2: "processingStatus uploaded_video = PENDING"
    by (simp add: uploaded_video_def)
  have h3: "find1_throws sample_penv = None \<and> save1_throws sample_penv = None
            \<and> save2_throws sample_penv = None \<and> find2_throws sample_penv = None
            \<and> save3_throws sample_penv = None"
    by (simp add: sample_penv_def)
  from status_sequence_forward
         [where d = pipeline_db and i = 5 and env = sample_penv and fs = sample_files and t = 1,
          OF h1 h2] h3
  have "processingStatus uploaded_video
          # saved_statuses 5 (fst (snd (processVideo sample_penv pipeline_db sample_files 5 1)))
        \<in> {[PENDING, PROCESSING, COMPLETED], [PENDING, PROCESSING, FLAGGED]}"
    by blast
  then show ?thesis
    using h1 h2 h3 by simp
qed


lemma error_events_emit [simp]:
  "filter is_error_event (emitProgress b t j p st dt) = []"
  "filter is_error_event (emitCompletion b t j s sn) = []"
  "filter is_error_event (emitError b t j m) = (if b then [ErrorEv t j m] else [])"
  by (simp_all add: emitProgress_def emitCompletion_def emitError_def)

lemma error_events_stages [simp]:
  "filter is_error_event (events_start b t j) = []"
  "filter is_error_event (events_scan b t j v md sc) = []"
  "filter is_error_event (events_end b t j v) = []"
  "filter is_error_event (first_write i v) = []"
  "filter is_error_event (trace_before_final env t i v md) = []"
  by (simp_all add: events_start_def events_scan_def events_end_def first_write_def
        trace_before_final_def)








text \<open>
  C2, as stated, fails. In a run without any failure the events are, in order, the save of
  PROCESSING, the progress events 0, 10, 25, 30, 75 and 90, the save of the terminal
  status, the progress event 100 and the completion event: the progress event 25 "Metadata
  Extracted" announces duration, resolution and codec while the stored record has neither
  duration nor metadata, which are assigned in memory only and first saved with the
  terminal status (never, when that save throws). And the error event of a run whose
  artifact is not found announces a failure that no record holds.
\<close>

theorem announce_before_persist_counterexample:
  "fst (snd (processVideo sample_penv pipeline_db sample_files 5 1))
     = [Saved 5 (uploaded_video\<lparr>processingStatus := PROCESSING\<rparr>),
        ProgressEv 1 5 0 ''Initializing'' (Message ''Video processing started''),
        ProgressEv 1 5 10 ''Extracting Metadata'' (Message ''Analyzing video file...''),
        ProgressEv 1 5 25 ''Metadata Extracted''
          (MetadataExtracted ''Video metadata extracted successfully''
             (Some 12) (Some 1920) (Some 1080) (Some ''h264'')),
        ProgressEv 1 5 30 ''AI Sensitivity Scan'' (Message ''Running AI content analysis...''),
        ProgressEv 1 5 75 ''AI Scan Complete'' (ScanComplete ''Content analysis completed'' SAFE),
        ProgressEv 1 5 90 ''Finalizing'' (Message ''Finalizing video processing...''),
        Saved 5 (uploaded_video
                   \<lparr>duration := Some 12,
                    processingStatus := COMPLETED,
                    metadata := Some \<lparr>width = Some 1920, height = Some 1080,
                                      bitrate = Some 800000, codec = Some ''h264'',
                                      frameRate = Some 30\<rparr>\<rparr>),
        ProgressEv 1 5 100 ''Completed'' (Finished ''Video processing completed'' COMPLETED),
        CompletionEv 1 5 COMPLETED
          \<lparr>s_id = 5, s_title = ''Holiday'', s_processingStatus = COMPLETED,
           s_duration = Some 12,
           s_metadata = Some \<lparr>width = Some 1920, height = Some 1080,
                               bitrate = Some 800000, codec = Some ''h264'',
                               frameRate = Some 30\<rparr>\<rparr>]
   \<and> map_option metadata
         (replay pipeline_db
            (take 3 (fst (snd (processVideo sample_penv pipeline_db sample_files 5 1)))) 5)
       = Some None
   \<and> map_option duration
         (replay pipeline_db
            (take 3 (fst (snd (processVideo sample_penv pipeline_db sample_files 5 1)))) 5)
       = Some None
   \<and> map_option metadata
         (snd (snd (processVideo (sample_penv\<lparr>save2_throws := Some ''connection lost''\<rparr>)
                      pipeline_db sample_files 5 1)) 5)
       = Some None
   \<and> fst (snd (processVideo sample_penv pipeline_db sample_files 99 1))
       = [ErrorEv 1 99 ''Video not found'']
   \<and> pipeline_db 99 = None"
  by (simp add: pipe_simps Let_def)


lemma announces_persisted_append [simp]:
  "announces_persisted b d (xs @ ys)
     \<longleftrightarrow> announces_persisted b d xs \<and> announces_persisted b (replay d xs) ys"
proof (induction xs arbitrary: d)
  case Nil
  show ?case by simp
next
  case (Cons e es)
  show ?case
    by (cases e) (simp_all only: append_Cons announces_persisted.simps replay.simps Cons.IH conj_assoc)
qed

lemma announces_stages [simp]:
  "announces_persisted b (d(i \<mapsto> w)) (events_start io' t i)
     = (io' \<longrightarrow> processingStatus w = PROCESSING)"
  "announces_persisted b (d(i \<mapsto> w)) (events_scan io' t i v md sc)
     = (io' \<longrightarrow> processingStatus w = PROCESSING)"
  "announces_persisted b (d(i \<mapsto> w)) (events_end io' t i w)
     = (io' \<longrightarrow> processingStatus w = COMPLETED \<or> processingStatus w = FLAGGED)"
  "announces_persisted b d (first_write i v)"
  by (auto simp: events_start_def events_scan_def events_end_def emitProgress_def
        emitCompletion_def first_write_def)

lemma started_status [simp]: "processingStatus (video_started v) = PROCESSING"
  by (simp add: video_started_def)

lemma announces_try:
  "announces_persisted b d (fst (snd (processVideo_try env d fs i t)))"
proof (cases rule: try_cases [of env d fs i t])
  case (extract_fails v m)
  then show ?thesis
    by (simp add: replay_first_write)
next
  case (invalid v md)
  then show ?thesis
    by (simp add: trace_before_final_def replay_first_write)
next
  case (save2_throws v md m)
  then show ?thesis
    by (simp add: trace_before_final_def replay_first_write)
next
  case (completes v md)
  then show ?thesis
    using final_video_status [of env v md]
    by (simp add: trace_before_final_def replay_first_write)
qed simp_all

lemma announces_catch:
  "announces_persisted False d (fst (processVideo_catch env d i t m))"
  "find2_throws env = None \<Longrightarrow> save3_throws env = None \<Longrightarrow> d i \<noteq> None
     \<Longrightarrow> announces_persisted True d (fst (processVideo_catch env d i t m))"
  by (cases rule: catch_cases [of env d i t m];
      auto simp: emitError_def video_flagged_def)+

lemma try_keeps_artifact:
  "d i \<noteq> None \<Longrightarrow> snd (snd (processVideo_try env d fs i t)) i \<noteq> None"
  by (cases rule: try_cases [of env d fs i t]) auto

text \<open>
  C2, amended: in every run, each progress event is sent when the stored record already
  has the status the event stands for: PROCESSING is saved before the first progress
  event, and the terminal status (COMPLETED or FLAGGED) before the progress event 100 and
  the completion event, whose snapshot (status, duration, metadata, title) is that of the
  stored record. An error event is sent after the record was stored as FLAGGED with the
  message of the event, whenever the artifact exists and the lookup and the save of the
  \<open>catch\<close> block do not throw.
\<close>

theorem status_persisted_before_announced:
  "announces_persisted False d (fst (snd (processVideo env d fs i t)))
   \<and> (find2_throws env = None \<and> save3_throws env = None \<and> d i \<noteq> None
        \<longrightarrow> announces_persisted True d (fst (snd (processVideo env d fs i t))))"
proof -
  obtain r tr d' where body: "processVideo_try env d fs i t = (r, tr, d')"
    by (cases "processVideo_try env d fs i t") auto
  have d': "d' = replay d tr"
    using try_replay [of env d fs i t] body by simp
  have tr: "announces_persisted b d tr" for b
    using announces_try [of b d env fs i t] body by simp
  have keep: "d i \<noteq> None \<Longrightarrow> d' i \<noteq> None"
    using try_keeps_artifact [where d = d and i = i and env = env and fs = fs and t = t] body
    by simp
  show ?thesis
  proof (cases r)
    case (Inr u)
    then show ?thesis
      using processVideo_succeeded [of env d fs i t tr d'] body tr by simp
  next
    case (Inl m)
    then have run: "fst (snd (processVideo env d fs i t))
                      = tr @ fst (processVideo_catch env d' i t m)"
      using processVideo_failed [of env d fs i t m tr d'] body by simp
    show ?thesis
      unfolding run
      using tr announces_catch [where d = d' and env = env and i = i and t = t and m = m]
            keep d'
      by auto
  qed
qed

theorem status_persisted_before_announced_witness:
  "find2_throws (sample_penv\<lparr>ffprobe := Inl ''Invalid data found''\<rparr>) = None
   \<and> save3_throws (sample_penv\<lparr>ffprobe := Inl ''Invalid data found''\<rparr>) = None
   \<and> pipeline_db 5 \<noteq> None
   \<and> announces_persisted True pipeline_db
         (fst (snd (processVideo (sample_penv\<lparr>ffprobe := Inl ''Invalid data found''\<rparr>)
                      pipeline_db sample_files 5 1)))
   \<and> announces_persisted False pipeline_db
         (fst (snd (processVideo sample_penv pipeline_db sample_files 5 1)))"
proof -
  let ?env = "sample_penv\<lparr>ffprobe := Inl ''Invalid data found''\<rparr>"
  have h1: "find2_throws ?env = None" and h2: "save3_throws ?env = None"
    by (simp_all add: sample_penv_def)
  have h3: "pipeline_db 5 \<noteq> None"
    by (simp add: pipeline_db_def)
  have a: "announces_persisted True pipeline_db
             (fst (snd (processVideo ?env pipeline_db sample_files 5 1)))"
    using status_persisted_before_announced
            [where env = ?env and d = pipeline_db and fs = sample_files and i = 5 and t = 1]
          h1 h2 h3
    by blast
  have b: "announces_persisted False pipeline_db
             (fst (snd (processVideo sample_penv pipeline_db sample_files 5 1)))"
    using status_persisted_before_announced
            [where env = sample_penv and d = pipeline_db and fs = sample_files and i = 5
               and t = 1]
    by blast
  show ?thesis
    using h1 h2 h3 a b by blast
qed

lemma of_char_lower:
  "(of_char (lower_char c) :: nat)
     = (if 65 \<le> (of_char c :: nat) \<and> (of_char c :: nat) \<le> 90
           \<or> 192 \<le> (of_char c :: nat) \<and> (of_char c :: nat) \<le> 214
           \<or> 216 \<le> (of_char c :: nat) \<and> (of_char c :: nat) \<le> 222
        then of_char c + 32 else of_char c)"
  by (auto simp: lower_char_def Let_def)

lemma lower_char_eq_iff:
  "lower_char a = lower_char b
     \<longleftrightarrow> (of_char (lower_char a) :: nat) = of_char (lower_char b)"
  by simp

lemma ascii_pairs:
  "zip ''ABCDEFGHIJKLMNOPQRSTUVWXYZ'' ''abcdefghijklmnopqrstuvwxyz''
     = map (\<lambda>k. (char_of k, char_of (k + 32))) [65 ..< 91 :: nat]"
  by code_simp

lemma char_of_eq_small: "k < 256 \<Longrightarrow> (c = char_of (k :: nat)) = ((of_char c :: nat) = k)"
  by (auto simp: char_of_eq_iff take_bit_eq_mod)

lemma case_pairs_iff:
  "(a, b) \<in> set spec_case_pairs
     \<longleftrightarrow> (65 \<le> (of_char a :: nat) \<and> (of_char a :: nat) \<le> 90
           \<or> 192 \<le> (of_char a :: nat) \<and> (of_char a :: nat) \<le> 214
           \<or> 216 \<le> (of_char a :: nat) \<and> (of_char a :: nat) \<le> 222)
         \<and> (of_char b :: nat) = of_char a + 32"
proof -
  have "(a, b) \<in> set spec_case_pairs
          \<longleftrightarrow> (\<exists>k \<in> {65 ..< 91} \<union> {192 ..< 215} \<union> {216 ..< 223 :: nat}.
                 a = char_of k \<and> b = char_of (k + 32))"
    unfolding spec_case_pairs_def ascii_pairs by (auto simp del: upt_rec_numeral)
  also have "\<dots> \<longleftrightarrow> (\<exists>k \<in> {65 ..< 91} \<union> {192 ..< 215} \<union> {216 ..< 223 :: nat}.
                 (of_char a :: nat) = k \<and> (of_char b :: nat) = k + 32)"
    by (intro bex_cong refl) (auto simp: char_of_eq_small)
  also have "\<dots> \<longleftrightarrow> (65 \<le> (of_char a :: nat) \<and> (of_char a :: nat) \<le> 90
           \<or> 192 \<le> (of_char a :: nat) \<and> (of_char a :: nat) \<le> 214
           \<or> 216 \<le> (of_char a :: nat) \<and> (of_char a :: nat) \<le> 222)
         \<and> (of_char b :: nat) = of_char a + 32"
    by auto
  finally show ?thesis .
qed

lemma same_letter_iff: "spec_same_letter a b \<longleftrightarrow> lower_char a = lower_char b"
proof -
  have eq: "a = b \<longleftrightarrow> (of_char a :: nat) = of_char b"
    by simp
  show ?thesis
    unfolding spec_same_letter_def case_pairs_iff lower_char_eq_iff of_char_lower eq
    by presburger
qed

lemma same_letter_fun: "spec_same_letter = (\<lambda>a b. lower_char a = lower_char b)"
  by (intro ext) (rule same_letter_iff)

lemma map_eq_iff_all2:
  "map f xs = map f ys \<longleftrightarrow> list_all2 (\<lambda>a b. f a = f b) xs ys"
proof (induction xs arbitrary: ys)
  case Nil
  show ?case by auto
next
  case (Cons x xs)
  then show ?case by (cases ys) auto
qed

lemma js_includes_iff:
  "js_includes s p \<longleftrightarrow> (\<exists>k \<le> length s. take (length p) (drop k s) = p)"
proof (induction s)
  case Nil
  show ?case by auto
next
  case (Cons c cs)
  have "(\<exists>k \<le> length (c # cs). take (length p) (drop k (c # cs)) = p)
          \<longleftrightarrow> take (length p) (c # cs) = p
              \<or> (\<exists>k \<le> length cs. take (length p) (drop k cs) = p)"
  proof
    assume "\<exists>k \<le> length (c # cs). take (length p) (drop k (c # cs)) = p"
    then obtain k where k: "k \<le> length (c # cs)" "take (length p) (drop k (c # cs)) = p"
      by blast
    show "take (length p) (c # cs) = p \<or> (\<exists>k \<le> length cs. take (length p) (drop k cs) = p)"
    proof (cases k)
      case 0
      with k show ?thesis by simp
    next
      case (Suc j)
      with k have "j \<le> length cs \<and> take (length p) (drop j cs) = p" by simp
      then show ?thesis by blast
    qed
  next
    assume "take (length p) (c # cs) = p \<or> (\<exists>k \<le> length cs. take (length p) (drop k cs) = p)"
    then show "\<exists>k \<le> length (c # cs). take (length p) (drop k (c # cs)) = p"
    proof
      assume "take (length p) (c # cs) = p"
      then have "0 \<le> length (c # cs) \<and> take (length p) (drop 0 (c # cs)) = p" by simp
      then show ?thesis by blast
    next
      assume "\<exists>k \<le> length cs. take (length p) (drop k cs) = p"
      then obtain k where "k \<le> length cs" "take (length p) (drop k cs) = p" by blast
      then have "Suc k \<le> length (c # cs) \<and> take (length p) (drop (Suc k) (c # cs)) = p"
        by simp
      then show ?thesis by blast
    qed
  qed
  with Cons.IH show ?case by simp
qed


lemma keyword_hit_iff: "keyword_hit (toLowerCase name) kw \<longleftrightarrow> spec_contains_ci name kw"
proof -
  have "spec_contains_ci name kw
          \<longleftrightarrow> (\<exists>k \<le> length name.
                 list_all2 spec_same_letter (take (length kw) (drop k name)) kw)"
    by (simp only: spec_contains_ci_def list_ex_iff set_upt Bex_def atLeastLessThan_iff
          less_Suc_eq_le le0 simp_thms)
  also have "\<dots> \<longleftrightarrow> (\<exists>k \<le> length name.
                 map lower_char (take (length kw) (drop k name)) = map lower_char kw)"
    by (simp add: map_eq_iff_all2 same_letter_fun)
  finally show ?thesis
    by (simp add: keyword_hit_def js_includes_iff toLowerCase_def take_map drop_map)
qed

lemma scan_keyword:
  assumes "find (spec_contains_ci name) SENSITIVITY_KEYWORDS = Some m"
  shows "simulateAISensitivityScan r name
           = \<lparr>sr_status = SCAN_FLAGGED,
              sr_reason = Some (''Sensitivity keyword detected: '' @ [CHR 0x22] @ m @ [CHR 0x22])\<rparr>"
proof -
  have same: "keyword_hit (toLowerCase name) = spec_contains_ci name"
    by (rule ext) (rule keyword_hit_iff)
  have "list_ex (spec_contains_ci name) SENSITIVITY_KEYWORDS"
    using assms by (auto simp: list_ex_iff find_Some_iff)
  then show ?thesis
    using assms by (simp add: simulateAISensitivityScan_def Let_def same)
qed

lemma run_flagged:
  assumes "find1_throws env = None" and "d i = Some v" and "save1_throws env = None"
    and "extractMetadata fs (ffprobe env) (filePath v) = Inr md" and "\<not> has_nan md"
    and "save2_throws env = None"
    and "simulateAISensitivityScan (random_draw env) (originalFilename v)
           = \<lparr>sr_status = SCAN_FLAGGED, sr_reason = Some reason\<rparr>"
    and "reason \<noteq> []"
  shows "\<exists>w. snd (snd (processVideo env d fs i t)) i = Some w
            \<and> Saved i w \<in> set (fst (snd (processVideo env d fs i t)))
            \<and> processingStatus w = FLAGGED \<and> processingError w = Some reason"
proof -
  have "processVideo env d fs i t
          = (Inr (),
             trace_before_final env t i v md @ [Saved i (final_video env v md)]
               @ events_end (io env) t i (final_video env v md),
             d(i \<mapsto> final_video env v md))"
    by (rule processVideo_succeeded, rule try_completes) (use assms in simp_all)
  moreover have "processingStatus (final_video env v md) = FLAGGED
                 \<and> processingError (final_video env v md) = Some reason"
    using assms(7,8) by (simp add: final_video_def video_finalized_def reason_or_default_def)
  ultimately show ?thesis
    by simp
qed

text \<open>
  C7, as stated, fails: a display name that contains a disallowed term does not make the
  run end with the detail of that term persisted. The scan is reached only after the
  metadata were extracted, and its result is stored only by the final save. For the
  display name \<open>My_FLAG_video.mp4\<close>, a run whose \<open>ffprobe\<close> fails persists FLAGGED with
  the detail of the failed extraction, and a run whose \<open>ffprobe\<close> reports no duration
  (the rounded value is \<open>NaN\<close>) persists FLAGGED with the message of the rejected save;
  neither names the term.
\<close>

theorem keyword_detail_lost_counterexample:
  "''flag'' \<in> set SENSITIVITY_KEYWORDS
   \<and> map_option originalFilename (pipeline_db 6) = Some ''My_FLAG_video.mp4''
   \<and> spec_contains_ci ''My_FLAG_video.mp4'' ''flag''
   \<and> map_option processingError
         (snd (snd (processVideo (sample_penv\<lparr>ffprobe := Inl ''Invalid data found''\<rparr>)
                      pipeline_db sample_files 6 1)) 6)
       = Some (Some ''Metadata extraction failed: FFprobe error: Invalid data found'')
   \<and> map_option processingError
         (snd (snd (processVideo (sample_penv\<lparr>ffprobe := Inr (sample_probe\<lparr>pr_duration := NaN\<rparr>)\<rparr>)
                      pipeline_db sample_files 6 1)) 6)
       = Some (Some ''Video validation failed'')"
  by (simp add: pipe_simps Let_def spec_contains_ci_def spec_same_letter_def case_pairs_iff)

text \<open>
  C7, amended: for every display name in which a term of the disallowed list occurs as a
  case-insensitive substring, the scan returns FLAGGED with the detail
  \<open>Sensitivity keyword detected: "m"\<close>, where \<open>m\<close> is the first term of the list that
  occurs in the name in that way, whatever the random draw; and every run on an artifact
  of that name ends with FLAGGED and that detail written to the artifact record by its
  final save, provided that the run reaches the scan and its final save succeeds: the
  artifact is found, the save of PROCESSING succeeds, the metadata are extracted and none
  of the numbers assigned from them is \<open>NaN\<close>, and the final save does not throw.
\<close>

theorem keyword_flags:
  assumes "kw \<in> set SENSITIVITY_KEYWORDS" and "spec_contains_ci name kw"
  shows "\<exists>m. find (spec_contains_ci name) SENSITIVITY_KEYWORDS = Some m
           \<and> m \<in> set SENSITIVITY_KEYWORDS \<and> spec_contains_ci name m
           \<and> (\<forall>r. simulateAISensitivityScan r name
                    = \<lparr>sr_status = SCAN_FLAGGED,
                       sr_reason = Some (''Sensitivity keyword detected: ''
                                          @ [CHR 0x22] @ m @ [CHR 0x22])\<rparr>)
           \<and> (\<forall>env d fs i t v md.
                 find1_throws env = None \<and> d i = Some v \<and> originalFilename v = name
                 \<and> save1_throws env = None
                 \<and> extractMetadata fs (ffprobe env) (filePath v) = Inr md
                 \<and> \<not> has_nan md \<and> save2_throws env = None
                 \<longrightarrow> (\<exists>w. snd (snd (processVideo env d fs i t)) i = Some w
                          \<and> Saved i w \<in> set (fst (snd (processVideo env d fs i t)))
                          \<and> processingStatus w = FLAGGED
                          \<and> processingError w
                              = Some (''Sensitivity keyword detected: ''
                                       @ [CHR 0x22] @ m @ [CHR 0x22])))"
proof -
  have "\<exists>x \<in> set SENSITIVITY_KEYWORDS. spec_contains_ci name x"
    using assms by auto
  then obtain m where m: "find (spec_contains_ci name) SENSITIVITY_KEYWORDS = Some m"
    by (cases "find (spec_contains_ci name) SENSITIVITY_KEYWORDS")
       (auto simp: find_None_iff)
  then have mem: "m \<in> set SENSITIVITY_KEYWORDS" and hit: "spec_contains_ci name m"
    by (auto simp: find_Some_iff)
  have scan: "simulateAISensitivityScan r name
                = \<lparr>sr_status = SCAN_FLAGGED,
                   sr_reason = Some (''Sensitivity keyword detected: ''
                                      @ [CHR 0x22] @ m @ [CHR 0x22])\<rparr>" for r
    by (rule scan_keyword [OF m])
  have run: "\<exists>w. snd (snd (processVideo env d fs i t)) i = Some w
                \<and> Saved i w \<in> set (fst (snd (processVideo env d fs i t)))
                \<and> processingStatus w = FLAGGED
                \<and> processingError w
                    = Some (''Sensitivity keyword detected: '' @ [CHR 0x22] @ m @ [CHR 0x22])"
    if "find1_throws env = None \<and> d i = Some v \<and> originalFilename v = name
        \<and> save1_throws env = None
        \<and> extractMetadata fs (ffprobe env) (filePath v) = Inr md
        \<and> \<not> has_nan md \<and> save2_throws env = None"
    for env d fs i t v md
  proof (rule run_flagged [where v = v and md = md])
    show "simulateAISensitivityScan (random_draw env) (originalFilename v)
            = \<lparr>sr_status = SCAN_FLAGGED,
               sr_reason = Some (''Sensitivity keyword detected: ''
                                  @ [CHR 0x22] @ m @ [CHR 0x22])\<rparr>"
      using that scan by simp
  qed (use that in simp_all)
  show ?thesis
    using m mem hit scan run by blast
qed

theorem keyword_flags_witness:
  "''flag'' \<in> set SENSITIVITY_KEYWORDS
   \<and> spec_contains_ci ''My_FLAG_video.mp4'' ''flag''
   \<and> simulateAISensitivityScan 0.5 ''My_FLAG_video.mp4''
       = \<lparr>sr_status = SCAN_FLAGGED,
          sr_reason = Some (''Sensitivity keyword detected: '' @ [CHR 0x22] @ ''flag'' @ [CHR 0x22])\<rparr>
   \<and> simulateAISensitivityScan 0.05 ''My_FLAG_video.mp4''
       = \<lparr>sr_status = SCAN_FLAGGED,
          sr_reason = Some (''Sensitivity keyword detected: '' @ [CHR 0x22] @ ''flag'' @ [CHR 0x22])\<rparr>
   \<and> find1_throws sample_penv = None
   \<and> pipeline_db 6 = Some (uploaded_video\<lparr>originalFilename := ''My_FLAG_video.mp4''\<rparr>)
   \<and> save1_throws sample_penv = None
   \<and> extractMetadata sample_files (ffprobe sample_penv)
         (filePath (uploaded_video\<lparr>originalFilename := ''My_FLAG_video.mp4''\<rparr>))
       = Inr sample_probe
   \<and> \<not> has_nan sample_probe
   \<and> save2_throws sample_penv = None
   \<and> (\<exists>w. snd (snd (processVideo sample_penv pipeline_db sample_files 6 1)) 6 = Some w
          \<and> processingStatus w = FLAGGED
          \<and> processingError w
              = Some (''Sensitivity keyword detected: '' @ [CHR 0x22] @ ''flag'' @ [CHR 0x22]))"
proof -
  let ?name = "''My_FLAG_video.mp4''"
  let ?v = "uploaded_video\<lparr>originalFilename := ?name\<rparr>"
  have h1: "''flag'' \<in> set SENSITIVITY_KEYWORDS"
    by (simp add: SENSITIVITY_KEYWORDS_def)
  have h2: "spec_contains_ci ?name ''flag''"
    by (simp add: spec_contains_ci_def spec_same_letter_def case_pairs_iff)
  have first: "find (spec_contains_ci ?name) SENSITIVITY_KEYWORDS = Some ''flag''"
    by (simp add: SENSITIVITY_KEYWORDS_def spec_contains_ci_def spec_same_letter_def
          case_pairs_iff)
  have e1: "find1_throws sample_penv = None" and e2: "save1_throws sample_penv = None"
    and e3: "save2_throws sample_penv = None"
    by (simp_all add: sample_penv_def)
  have e4: "\<not> has_nan sample_probe"
    by (simp add: has_nan_def sample_probe_def)
  have v: "pipeline_db 6 = Some ?v"
    by (simp add: pipeline_db_def)
  have n: "originalFilename ?v = ?name"
    by simp
  have x: "extractMetadata sample_files (ffprobe sample_penv) (filePath ?v) = Inr sample_probe"
    by (simp add: extractMetadata_def sample_files_def sample_penv_def uploaded_video_def)
  from keyword_flags [OF h1 h2] obtain m where
    m: "find (spec_contains_ci ?name) SENSITIVITY_KEYWORDS = Some m"
    and scan: "\<And>r. simulateAISensitivityScan r ?name
                 = \<lparr>sr_status = SCAN_FLAGGED,
                    sr_reason = Some (''Sensitivity keyword detected: ''
                                       @ [CHR 0x22] @ m @ [CHR 0x22])\<rparr>"
    and run: "\<And>env d fs i t v md.
                 find1_throws env = None \<and> d i = Some v \<and> originalFilename v = ?name
                 \<and> save1_throws env = None
                 \<and> extractMetadata fs (ffprobe env) (filePath v) = Inr md
                 \<and> \<not> has_nan md \<and> save2_throws env = None
                 \<Longrightarrow> (\<exists>w. snd (snd (processVideo env d fs i t)) i = Some w
                          \<and> Saved i w \<in> set (fst (snd (processVideo env d fs i t)))
                          \<and> processingStatus w = FLAGGED
                          \<and> processingError w
                              = Some (''Sensitivity keyword detected: ''
                                       @ [CHR 0x22] @ m @ [CHR 0x22]))"
    by blast
  have mf: "m = ''flag''"
    using m first by simp
  have r: "\<exists>w. snd (snd (processVideo sample_penv pipeline_db sample_files 6 1)) 6 = Some w
             \<and> processingStatus w = FLAGGED
             \<and> processingError w
                 = Some (''Sensitivity keyword detected: '' @ [CHR 0x22] @ ''flag'' @ [CHR 0x22])"
    using run [of sample_penv pipeline_db 6 ?v sample_files sample_probe 1] e1 e2 e3 e4 v n x
    unfolding mf by blast
  show ?thesis
    using h1 h2 scan [of "0.5"] scan [of "0.05"] e1 v e2 x e3 e4 r unfolding mf by blast
qed

lemma broadcasts_append [simp]: "broadcasts (xs @ ys) = broadcasts xs @ broadcasts ys"
  by (simp add: broadcasts_def)

lemma broadcasts_emit [simp]:
  "broadcasts (emitProgress b t j p st dt) = emitProgress b t j p st dt"
  "broadcasts (emitCompletion b t j s sn) = emitCompletion b t j s sn"
  "broadcasts (emitError b t j m) = emitError b t j m"
  by (simp_all add: broadcasts_def emitProgress_def emitCompletion_def emitError_def)

lemma broadcasts_stages [simp]:
  "broadcasts (events_start b t j) = events_start b t j"
  "broadcasts (events_scan b t j v md sc) = events_scan b t j v md sc"
  "broadcasts (events_end b t j v) = events_end b t j v"
  "broadcasts (first_write i v) = []"
  "broadcasts [Saved i v] = []"
  "broadcasts [] = []"
  by (simp_all add: events_start_def events_scan_def events_end_def)
     (simp_all add: broadcasts_def first_write_def)

lemma started_upd [simp]: "video_started (v\<lparr>processingStatus := s\<rparr>) = video_started v"
  by (simp add: video_started_def)

lemma final_video_upd [simp]:
  "final_video env (v\<lparr>processingStatus := s\<rparr>) md = final_video env v md"
  by (simp add: final_video_def)

lemma broadcasts_before_final [simp]:
  "broadcasts (trace_before_final env t i v md)
     = events_start (io env) t i
       @ events_scan (io env) t i (video_extracted (video_started v) md) md
           (simulateAISensitivityScan (random_draw env) (originalFilename v))"
  by (simp add: trace_before_final_def)

lemma catch_broadcasts:
  "broadcasts (fst (processVideo_catch env d i t m)) = emitError (io env) t i m"
  by (cases rule: catch_cases [of env d i t m]) simp_all

lemma catch_writes:
  "saved_statuses i (fst (processVideo_catch env d i t m)) = []
   \<or> saved_statuses i (fst (processVideo_catch env d i t m)) = [FLAGGED]"
  by (cases rule: catch_cases [of env d i t m]) (simp_all add: video_flagged_def)

lemma processVideo_trace:
  "fst (snd (processVideo env d fs i t))
     = fst (snd (processVideo_try env d fs i t))
       @ (case fst (processVideo_try env d fs i t) of
            Inl m \<Rightarrow> fst (processVideo_catch env (snd (snd (processVideo_try env d fs i t))) i t m)
          | Inr u \<Rightarrow> [])"
  by (simp add: processVideo_def split: prod.splits sum.splits)

lemma startProcessing_trace:
  "fst (snd (startProcessing env d fs i t)) = fst (snd (processVideo env d fs i t))"
  "snd (snd (startProcessing env d fs i t)) = snd (snd (processVideo env d fs i t))"
  by (simp_all add: startProcessing_def split: prod.splits sum.splits)

lemma processVideo_broadcasts:
  "broadcasts (fst (snd (processVideo env d fs i t)))
     = broadcasts (fst (snd (processVideo_try env d fs i t)))
       @ (case fst (processVideo_try env d fs i t) of
            Inl m \<Rightarrow> emitError (io env) t i m | Inr u \<Rightarrow> [])"
  by (simp add: processVideo_trace catch_broadcasts split: sum.splits)

lemma try_ignores_status:
  assumes "d i = Some v"
  shows "fst (processVideo_try env (d(i \<mapsto> v\<lparr>processingStatus := s\<rparr>)) fs i t)
           = fst (processVideo_try env d fs i t)
       \<and> broadcasts (fst (snd (processVideo_try env (d(i \<mapsto> v\<lparr>processingStatus := s\<rparr>)) fs i t)))
           = broadcasts (fst (snd (processVideo_try env d fs i t)))"
proof -
  let ?v = "v\<lparr>processingStatus := s\<rparr>"
  let ?d = "d(i \<mapsto> ?v)"
  have v': "?d i = Some ?v"
    by simp
  show ?thesis
  proof (cases rule: try_cases [of env d fs i t])
    case (lookup_throws m)
    then show ?thesis
      using try_find_throws [of env m ?d fs i t] by simp
  next
    case not_found
    then show ?thesis
      using assms by simp
  next
    case (save1_throws w m)
    then show ?thesis
      using try_save1_throws [where d = ?d and i = i and v = ?v and env = env and m = m
                                and fs = fs and t = t] v'
      by simp
  next
    case (extract_fails w m)
    then have "extractMetadata fs (ffprobe env) (filePath ?v) = Inl m"
      using assms by simp
    from try_extract_fails [where d = ?d and i = i and v = ?v and env = env and m = m
                                and fs = fs and t = t, OF extract_fails(1) v' extract_fails(3) this]
    show ?thesis
      using extract_fails(5) by simp
  next
    case (invalid w md)
    then have w: "w = v" and "extractMetadata fs (ffprobe env) (filePath ?v) = Inr md"
      using assms by simp_all
    from try_has_nan [where d = ?d and i = i and v = ?v and env = env and md = md
                                and fs = fs and t = t, OF invalid(1) v' invalid(3) this(2) invalid(5)]
    show ?thesis
      using invalid(6) w by simp
  next
    case (save2_throws w md m)
    then have w: "w = v" and "extractMetadata fs (ffprobe env) (filePath ?v) = Inr md"
      using assms by simp_all
    from try_save2_throws [where d = ?d and i = i and v = ?v and env = env and md = md
               and m = m and fs = fs and t = t,
             OF save2_throws(1) v' save2_throws(3) this(2) save2_throws(5) save2_throws(6)]
    show ?thesis
      using save2_throws(7) w by simp
  next
    case (completes w md)
    then have w: "w = v" and "extractMetadata fs (ffprobe env) (filePath ?v) = Inr md"
      using assms by simp_all
    from try_completes [where d = ?d and i = i and v = ?v and env = env and md = md
               and fs = fs and t = t,
             OF completes(1) v' completes(3) this(2) completes(5) completes(6)]
    show ?thesis
      using completes(7) w by simp
  qed
qed

lemma try_writes_processing:
  assumes "d i = Some v" and "processingStatus v = PROCESSING"
  shows "saved_statuses i (fst (snd (processVideo_try env d fs i t))) = []
           \<and> (\<exists>m. fst (processVideo_try env d fs i t) = Inl m)
       \<or> (saved_statuses i (fst (snd (processVideo_try env d fs i t))) = [COMPLETED]
            \<or> saved_statuses i (fst (snd (processVideo_try env d fs i t))) = [FLAGGED])
           \<and> fst (processVideo_try env d fs i t) = Inr ()"
proof (cases rule: try_cases [of env d fs i t])
  case (completes w md)
  then show ?thesis
    using assms final_video_status [of env v md] by auto
qed (use assms in auto)

text \<open>
  C9, as stated, fails: \<open>startProcessing\<close> on an artifact whose persisted status is already
  PROCESSING is neither rejected nor a no-op. The stages are executed again (the seven
  progress events and the completion event are broadcast) and the duplicate invocation
  writes the artifact record, here with the status COMPLETED.
\<close>

theorem duplicate_start_counterexample:
  "map_option processingStatus (pipeline_db 7) = Some PROCESSING
   \<and> fst (startProcessing sample_penv pipeline_db sample_files 7 1) = Inr ()
   \<and> length (broadcasts (fst (snd (startProcessing sample_penv pipeline_db sample_files 7 1)))) = 8
   \<and> saved_statuses 7 (fst (snd (startProcessing sample_penv pipeline_db sample_files 7 1)))
       = [COMPLETED]
   \<and> map_option processingStatus
         (snd (snd (startProcessing sample_penv pipeline_db sample_files 7 1)) 7)
       = Some COMPLETED"
  by (simp add: pipe_simps Let_def broadcasts_def)

text \<open>
  C9, amended: \<open>startProcessing\<close> makes no test of the persisted status. Invoked on an
  artifact whose persisted status is already PROCESSING, it executes the stages again: it
  broadcasts the events that an invocation on the same artifact in any other status
  broadcasts. Its save of PROCESSING changes nothing and sends no write, so the duplicate
  invocation writes the record at most once, with a terminal status (COMPLETED or
  FLAGGED); when no lookup, save or extraction of the run fails, it broadcasts the events
  of all stages and overwrites PROCESSING with the terminal status and the metadata.
\<close>

theorem duplicate_start_reruns:
  assumes "d i = Some v" and "processingStatus v = PROCESSING"
  shows "broadcasts (fst (snd (startProcessing env d fs i t)))
           = broadcasts (fst (snd (startProcessing env
                                     (d(i \<mapsto> v\<lparr>processingStatus := s\<rparr>)) fs i t)))
       \<and> saved_statuses i (fst (snd (startProcessing env d fs i t)))
           \<in> {[], [COMPLETED], [FLAGGED]}
       \<and> (find1_throws env = None \<and> save1_throws env = None
            \<and> extractMetadata fs (ffprobe env) (filePath v) = Inr md \<and> \<not> has_nan md
            \<and> save2_throws env = None
          \<longrightarrow> fst (snd (startProcessing env d fs i t))
                = events_start (io env) t i
                  @ events_scan (io env) t i (video_extracted (video_started v) md) md
                      (simulateAISensitivityScan (random_draw env) (originalFilename v))
                  @ [Saved i (final_video env v md)]
                  @ events_end (io env) t i (final_video env v md)
              \<and> snd (snd (startProcessing env d fs i t)) i = Some (final_video env v md)
              \<and> (processingStatus (final_video env v md) = COMPLETED
                   \<or> processingStatus (final_video env v md) = FLAGGED))"
proof -
  let ?d = "d(i \<mapsto> v\<lparr>processingStatus := s\<rparr>)"
  have a: "broadcasts (fst (snd (startProcessing env d fs i t)))
             = broadcasts (fst (snd (startProcessing env ?d fs i t)))"
    using try_ignores_status [where d = d and i = i, OF assms(1), of env s fs t]
    by (simp add: startProcessing_trace processVideo_broadcasts)
  have b: "saved_statuses i (fst (snd (startProcessing env d fs i t)))
             \<in> {[], [COMPLETED], [FLAGGED]}"
  proof -
    from try_writes_processing [where d = d and i = i, OF assms, of env fs t]
    consider (fails) m where "saved_statuses i (fst (snd (processVideo_try env d fs i t))) = []"
        "fst (processVideo_try env d fs i t) = Inl m"
      | (finished) "saved_statuses i (fst (snd (processVideo_try env d fs i t))) = [COMPLETED]
            \<or> saved_statuses i (fst (snd (processVideo_try env d fs i t))) = [FLAGGED]"
        "fst (processVideo_try env d fs i t) = Inr ()"
      by blast
    then show ?thesis
    proof cases
      case fails
      then show ?thesis
        using catch_writes [of i env "snd (snd (processVideo_try env d fs i t))" t m]
        by (auto simp: startProcessing_trace processVideo_trace)
    next
      case finished
      then show ?thesis
        by (auto simp: startProcessing_trace processVideo_trace)
    qed
  qed
  have c: "fst (snd (startProcessing env d fs i t))
                = events_start (io env) t i
                  @ events_scan (io env) t i (video_extracted (video_started v) md) md
                      (simulateAISensitivityScan (random_draw env) (originalFilename v))
                  @ [Saved i (final_video env v md)]
                  @ events_end (io env) t i (final_video env v md)
              \<and> snd (snd (startProcessing env d fs i t)) i = Some (final_video env v md)"
    if h: "find1_throws env = None \<and> save1_throws env = None
            \<and> extractMetadata fs (ffprobe env) (filePath v) = Inr md \<and> \<not> has_nan md
            \<and> save2_throws env = None"
  proof -
    have "processVideo env d fs i t
          = (Inr (),
             trace_before_final env t i v md @ [Saved i (final_video env v md)]
               @ events_end (io env) t i (final_video env v md),
             d(i \<mapsto> final_video env v md))"
      by (rule processVideo_succeeded, rule try_completes) (use assms h in simp_all)
    then show ?thesis
      using assms(2)
      by (simp add: startProcessing_trace trace_before_final_def first_write_def)
  qed
  show ?thesis
    using a b c final_video_status [of env v md] by blast
qed

theorem duplicate_start_reruns_witness:
  "pipeline_db 7 = Some (uploaded_video\<lparr>processingStatus := PROCESSING\<rparr>)
   \<and> processingStatus (uploaded_video\<lparr>processingStatus := PROCESSING\<rparr>) = PROCESSING
   \<and> find1_throws sample_penv = None \<and> save1_throws sample_penv = None
   \<and> extractMetadata sample_files (ffprobe sample_penv)
         (filePath (uploaded_video\<lparr>processingStatus := PROCESSING\<rparr>)) = Inr sample_probe
   \<and> \<not> has_nan sample_probe \<and> save2_throws sample_penv = None
   \<and> broadcasts (fst (snd (startProcessing sample_penv pipeline_db sample_files 7 1)))
       = broadcasts (fst (snd (startProcessing sample_penv
                                 (pipeline_db(7 \<mapsto> uploaded_video\<lparr>processingStatus := PROCESSING,
                                                                   processingStatus := PENDING\<rparr>))
                                 sample_files 7 1)))
   \<and> snd (snd (startProcessing sample_penv pipeline_db sample_files 7 1)) 7
       = Some (final_video sample_penv (uploaded_video\<lparr>processingStatus := PROCESSING\<rparr>)
                 sample_probe)
   \<and> processingStatus (final_video sample_penv (uploaded_video\<lparr>processingStatus := PROCESSING\<rparr>)
                         sample_probe) = COMPLETED"
proof -
  let ?v = "uploaded_video\<lparr>processingStatus := PROCESSING\<rparr>"
  have h1: "pipeline_db 7 = Some ?v"
    by (simp add: pipeline_db_def)
  have h2: "processingStatus ?v = PROCESSING"
    by simp
  have h3: "find1_throws sample_penv = None \<and> save1_throws sample_penv = None
            \<and> extractMetadata sample_files (ffprobe sample_penv) (filePath ?v) = Inr sample_probe
            \<and> \<not> has_nan sample_probe \<and> save2_throws sample_penv = None"
    by (simp add: sample_penv_def extractMetadata_def sample_files_def uploaded_video_def
          has_nan_def sample_probe_def)
  have h4: "processingStatus (final_video sample_penv ?v sample_probe) = COMPLETED"
    by (simp add: final_video_def video_finalized_def pipe_simps Let_def)
  note main = duplicate_start_reruns
     [where d = pipeline_db and i = 7 and env = sample_penv and fs = sample_files and t = 1
        and s = PENDING and md = sample_probe, OF h1 h2]
  show ?thesis
    using main h1 h2 h3 h4 by blast
qed

section \<open>Who writes the artifact record\<close>

text \<open>
  C10, as stated, fails: \<open>getVideoById\<close>, a read operation, increments and saves the view
  counter of a PENDING artifact, and the status-correction route writes the status of a
  PROCESSING artifact, both before any terminal status.
\<close>

theorem reads_and_writes_counterexample:
  "map_option processingStatus (sample_db 3) = Some PENDING
   \<and> map_option views (sample_db 3) = Some 0
   \<and> map_option views
         (snd (getVideoById sample_henv sample_db
                 \<lparr>p_id = 3, p_role = ADMIN, p_tenantId = 1\<rparr> 3) 3) = Some 1
   \<and> map_option processingStatus (sample_db 4) = Some PROCESSING
   \<and> map_option processingStatus
         (snd (patch_status_route sample_henv sample_db
                 \<lparr>p_id = 3, p_role = ADMIN, p_tenantId = 1\<rparr> 4 None ''COMPLETED'' None) 4)
       = Some COMPLETED"
  by (simp add: sample_db_def sample_video_def sample_henv_def getVideoById_def findOne_def
        patch_status_route_def authorize_def ensureTenantAccess_def updateProcessingStatus_def
        parse_status_def Let_def)



text \<open>
  C10, amended: \<open>streamVideo\<close> never writes the collection. \<open>getVideoById\<close> changes
  nothing but the view counter of the artifact it returns, which it increments by one
  whatever the status of the artifact. The status-correction route writes only for an
  ADMIN, only an artifact of the requester's tenant, only its \<open>processingStatus\<close> and
  \<open>processingError\<close>, and likewise whatever the current status.
\<close>

theorem reads_and_writes:
  "snd (streamVideo env d fs req) = d
   \<and> (snd (getVideoById henv d u i) = d
       \<or> (\<exists>v. findOne d i u = Some v
              \<and> snd (getVideoById henv d u i) = d(i \<mapsto> v\<lparr>views := views v + 1\<rparr>)))
   \<and> (find_throws henv = None \<and> save_throws henv = None \<and> findOne d i u = Some v
        \<longrightarrow> snd (getVideoById henv d u i) = d(i \<mapsto> v\<lparr>views := views v + 1\<rparr>))
   \<and> (snd (patch_status_route henv d u i body_tenant st err) \<noteq> d
        \<longrightarrow> p_role u = ADMIN
            \<and> (\<exists>w s e. d i = Some w \<and> tenantId w = p_tenantId u \<and> parse_status st = Some s
                   \<and> snd (patch_status_route henv d u i body_tenant st err)
                       = d(i \<mapsto> w\<lparr>processingStatus := s, processingError := e\<rparr>)))"
proof -
  have stream: "snd (streamVideo env d fs req) = d"
    by (simp add: streamVideo_def split: sum.splits option.splits)
  have get: "snd (getVideoById henv d u i) = d
       \<or> (\<exists>v. findOne d i u = Some v
              \<and> snd (getVideoById henv d u i) = d(i \<mapsto> v\<lparr>views := views v + 1\<rparr>))"
    by (simp add: getVideoById_def Let_def split: option.splits)
  have get_ok: "snd (getVideoById henv d u i) = d(i \<mapsto> v\<lparr>views := views v + 1\<rparr>)"
    if "find_throws henv = None \<and> save_throws henv = None \<and> findOne d i u = Some v"
    using that by (simp add: getVideoById_def Let_def)
  have upd: "\<exists>w s e. d i = Some w \<and> tenantId w = p_tenantId u \<and> parse_status st = Some s
                   \<and> snd (updateProcessingStatus henv d u i st err)
                       = d(i \<mapsto> w\<lparr>processingStatus := s, processingError := e\<rparr>)"
    if "snd (updateProcessingStatus henv d u i st err) \<noteq> d"
  proof -
    from that obtain w s where w: "d i = Some w" "tenantId w = p_tenantId u"
        "parse_status st = Some s" "find_throws henv = None" "save_throws henv = None"
      by (auto simp: updateProcessingStatus_def Let_def split: option.splits if_splits)
    have "snd (updateProcessingStatus henv d u i st err)
            = d(i \<mapsto> w\<lparr>processingStatus := s,
                         processingError :=
                           (case err of None \<Rightarrow> processingError w
                            | Some x \<Rightarrow> if x = [] then processingError w else Some x)\<rparr>)"
      using w by (simp add: updateProcessingStatus_def Let_def split: option.splits)
    with w show ?thesis by blast
  qed
  have patch: "p_role u = ADMIN
            \<and> (\<exists>w s e. d i = Some w \<and> tenantId w = p_tenantId u \<and> parse_status st = Some s
                   \<and> snd (patch_status_route henv d u i body_tenant st err)
                       = d(i \<mapsto> w\<lparr>processingStatus := s, processingError := e\<rparr>))"
    if ne: "snd (patch_status_route henv d u i body_tenant st err) \<noteq> d"
  proof -
    have admin: "p_role u = ADMIN"
      using ne by (auto simp: patch_status_route_def authorize_def split: option.splits if_splits)
    have same: "patch_status_route henv d u i body_tenant st err
                  = updateProcessingStatus henv d u i st err"
      using ne by (auto simp: patch_status_route_def split: option.splits)
    show ?thesis
      using admin upd ne unfolding same by blast
  qed
  show ?thesis
    using stream get get_ok patch by blast
qed

theorem reads_and_writes_witness:
  "find_throws sample_henv = None \<and> save_throws sample_henv = None
   \<and> findOne sample_db 3 \<lparr>p_id = 3, p_role = ADMIN, p_tenantId = 1\<rparr>
       = Some (sample_video\<lparr>processingStatus := PENDING\<rparr>)
   \<and> snd (getVideoById sample_henv sample_db \<lparr>p_id = 3, p_role = ADMIN, p_tenantId = 1\<rparr> 3) 3
       = Some (sample_video\<lparr>processingStatus := PENDING, views := 1\<rparr>)
   \<and> snd (patch_status_route sample_henv sample_db
             \<lparr>p_id = 3, p_role = ADMIN, p_tenantId = 1\<rparr> 4 None ''COMPLETED'' None)
       \<noteq> sample_db
   \<and> (\<exists>w s e. sample_db 4 = Some w \<and> parse_status ''COMPLETED'' = Some s
          \<and> snd (patch_status_route sample_henv sample_db
                    \<lparr>p_id = 3, p_role = ADMIN, p_tenantId = 1\<rparr> 4 None ''COMPLETED'' None)
              = sample_db(4 \<mapsto> w\<lparr>processingStatus := s, processingError := e\<rparr>))
   \<and> snd (streamVideo sample_senv sample_db sample_files (sample_req ''token-admin'' 1 None))
       = sample_db"
proof -
  let ?u = "\<lparr>p_id = 3, p_role = ADMIN, p_tenantId = 1\<rparr>"
  let ?v = "sample_video\<lparr>processingStatus := PENDING\<rparr>"
  have h1: "find_throws sample_henv = None" and h2: "save_throws sample_henv = None"
    by (simp_all add: sample_henv_def)
  have h3: "findOne sample_db 3 ?u = Some ?v"
    by (simp add: sample_db_def findOne_def sample_video_def)
  have "map_option processingStatus
          (snd (patch_status_route sample_henv sample_db ?u 4 None ''COMPLETED'' None) 4)
        \<noteq> map_option processingStatus (sample_db 4)"
    by (simp add: sample_db_def sample_video_def sample_henv_def findOne_def
        patch_status_route_def authorize_def ensureTenantAccess_def updateProcessingStatus_def
        parse_status_def Let_def)
  then have h4: "snd (patch_status_route sample_henv sample_db ?u 4 None ''COMPLETED'' None)
                   \<noteq> sample_db"
    by auto
  note main = reads_and_writes
     [where env = sample_senv and d = sample_db and fs = sample_files
        and req = "sample_req ''token-admin'' 1 None" and henv = sample_henv and u = ?u
        and i = 3 and v = ?v]
  note main4 = reads_and_writes
     [where henv = sample_henv and d = sample_db and u = ?u and i = 4 and body_tenant = None
        and st = "''COMPLETED''" and err = None]
  have a: "snd (getVideoById sample_henv sample_db ?u 3)
             = sample_db(3 \<mapsto> ?v\<lparr>views := views ?v + 1\<rparr>)"
    using main h1 h2 h3 by blast
  have a': "snd (getVideoById sample_henv sample_db ?u 3) 3
              = Some (sample_video\<lparr>processingStatus := PENDING, views := 1\<rparr>)"
    unfolding a by (simp add: sample_video_def)
  have b: "\<exists>w s e. sample_db 4 = Some w \<and> parse_status ''COMPLETED'' = Some s
          \<and> snd (patch_status_route sample_henv sample_db ?u 4 None ''COMPLETED'' None)
              = sample_db(4 \<mapsto> w\<lparr>processingStatus := s, processingError := e\<rparr>)"
    using main4 h4 by blast
  have c: "snd (streamVideo sample_senv sample_db sample_files
                  (sample_req ''token-admin'' 1 None)) = sample_db"
    using main by blast
  show ?thesis
    using h1 h2 h3 a' h4 b c by blast
qed


end
